theory Spec2Isabelle
  imports Complex_Main
begin

section \<open>Data model\<close>

text \<open>
  The simulation is JavaScript. Numbers are modelled as mathematical reals; the helm
  fields that the code guards against corruption are modelled with an explicit NaN and
  \<open>undefined\<close> in the section on vehicle dynamics, and the rounding of binary64 is
  modelled in the physics step, where the speed bound depends on it.
  Object identity (\<open>===\<close> on ships) is the field \<open>ref\<close>; a roster is the array of
  its ship objects, which never holds \<open>null\<close>, so the \<open>s &&\<close> guards of the source are
  not modelled. An absent \<open>currentSpeed\<close> is \<open>None\<close>.
\<close>

datatype ship_class = BB | CV | DD | TB

datatype team = P | E

datatype route_state = Patrol | Engaging

record kind =
  ktype :: ship_class
  radius :: real
  maxSpeed :: real
  accel :: real
  turnRate :: real

record ship =
  ref :: nat
  team :: team
  kind :: kind
  alive :: bool
  shipx :: real
  shipy :: real
  shipvx :: real
  shipvy :: real
  heading :: real
  isCommander :: bool
  plannedPath :: "(real \<times> real) list"
  routeState :: route_state
  escortPosition :: "int option"
  currentSpeed :: "real option"

text \<open>
  The four ship classes of old/js/config.js (\<open>SHIP_SPEED_SCALE = SHIP_ACCEL_SCALE = 0.28\<close>),
  and \<open>mkShip\<close> of entities.js restricted to the fields above; the fresh object's
  identity is an argument.
\<close>

definition kind_DD :: kind where
  "kind_DD = \<lparr>ktype = DD, radius = 14, maxSpeed = 115 * 0.28, accel = 70 * 0.28, turnRate = 1.5\<rparr>"

definition kind_BB :: kind where
  "kind_BB = \<lparr>ktype = BB, radius = 22, maxSpeed = 65 * 0.28, accel = 34 * 0.28, turnRate = 0.8\<rparr>"

definition kind_TB :: kind where
  "kind_TB = \<lparr>ktype = TB, radius = 12, maxSpeed = 130 * 0.28, accel = 90 * 0.28, turnRate = 1.8\<rparr>"

definition kind_CV :: kind where
  "kind_CV = \<lparr>ktype = CV, radius = 26, maxSpeed = 58 * 0.28, accel = 28 * 0.28, turnRate = 0.6\<rparr>"

definition mkShip :: "nat \<Rightarrow> team \<Rightarrow> kind \<Rightarrow> real \<Rightarrow> real \<Rightarrow> real \<Rightarrow> ship" where
  "mkShip r tm k x0 y0 h =
     \<lparr>ref = r, team = tm, kind = k, alive = True, shipx = x0, shipy = y0, shipvx = 0, shipvy = 0,
      heading = h, isCommander = False, plannedPath = [], routeState = Patrol,
      escortPosition = None, currentSpeed = Some 0\<rparr>"

section \<open>Formation model: commander election\<close>

text \<open>
  \<open>pickCapitalLeader(arr)\<close> of entities.js. The filtered array \<open>alive\<close> is kept as the
  list of positions of the living ships in \<open>arr\<close>, so that the ship found is the object
  of the roster that the assignments mutate. The result is the position of the returned
  ship (\<open>None\<close> for \<open>null\<close>) and the roster after the call.
\<close>

definition alive_positions :: "ship list \<Rightarrow> nat list" where
  "alive_positions arr = filter (\<lambda>i. alive (arr ! i)) [0..<length arr]"

fun pick_by_priority :: "ship list \<Rightarrow> nat list \<Rightarrow> ship_class list \<Rightarrow> nat option" where
  "pick_by_priority arr al [] = None"
| "pick_by_priority arr al (t # ts) =
     (case find (\<lambda>i. ktype (kind (arr ! i)) = t) al of
        Some c \<Rightarrow> Some c
      | None \<Rightarrow> pick_by_priority arr al ts)"

definition priority :: "ship_class list" where
  "priority = [BB, CV, DD, TB]"

definition pickCapitalLeader :: "ship list \<Rightarrow> nat option \<times> ship list" where
  "pickCapitalLeader arr =
     (let al = alive_positions arr in
      if al = [] then (None, arr)
      else case find (\<lambda>i. isCommander (arr ! i)) al of
        Some c \<Rightarrow> (Some c, arr)
      | None \<Rightarrow>
          (case pick_by_priority arr al priority of
             Some c \<Rightarrow>
               (Some c,
                (map (\<lambda>s. s\<lparr>isCommander := False\<rparr>) arr)
                  [c := (arr ! c)\<lparr>isCommander := True, plannedPath := [], routeState := Patrol\<rparr>])
           | None \<Rightarrow>
               (Some (hd al),
                arr[hd al := (arr ! hd al)\<lparr>isCommander := True, routeState := Patrol\<rparr>])))"

text \<open>
  The commander designation of \<open>setFormation(teamArr, formKey)\<close>:
  \<open>commander = bb[0] || cv[0] || teamArr[0]; if (commander) commander.isCommander = true\<close>.
  The remaining assignments of \<open>setFormation\<close> write the slot fields \<open>formKey\<close>, \<open>formF\<close>,
  \<open>formR\<close>, \<open>escortTarget\<close> and \<open>escortPosition\<close>, none of which the election reads.
\<close>

definition first_of_class :: "ship list \<Rightarrow> ship_class \<Rightarrow> nat option" where
  "first_of_class teamArr t = find (\<lambda>i. ktype (kind (teamArr ! i)) = t) [0..<length teamArr]"

definition formation_commander :: "ship list \<Rightarrow> nat option" where
  "formation_commander teamArr =
     (case first_of_class teamArr BB of
        Some c \<Rightarrow> Some c
      | None \<Rightarrow>
          (case first_of_class teamArr CV of
             Some c \<Rightarrow> Some c
           | None \<Rightarrow> (if teamArr = [] then None else Some 0)))"

definition setFormation :: "ship list \<Rightarrow> ship list" where
  "setFormation teamArr =
     (case formation_commander teamArr of
        Some c \<Rightarrow> teamArr[c := (teamArr ! c)\<lparr>isCommander := True\<rparr>]
      | None \<Rightarrow> teamArr)"

text \<open>
  The rosters of a running game. \<open>mkShip\<close> creates every ship with
  \<open>isCommander: false\<close>; \<open>setFormation\<close> runs once on the new roster; afterwards the
  flag is written by \<open>pickCapitalLeader\<close> only, while the rest of the tick (movement,
  damage, sinking) changes other fields of the ships and leaves the array and the flags
  as they are.
\<close>

inductive game_roster :: "ship list \<Rightarrow> bool" where
  spawned: "\<forall>s \<in> set arr. \<not> isCommander s \<Longrightarrow> game_roster (setFormation arr)"
| elected: "game_roster arr \<Longrightarrow> game_roster (snd (pickCapitalLeader arr))"
| ticked: "game_roster arr \<Longrightarrow> map isCommander arr' = map isCommander arr \<Longrightarrow> game_roster arr'"

definition at_most_one_flag :: "ship list \<Rightarrow> bool" where
  "at_most_one_flag arr =
     (\<forall>i < length arr. \<forall>j < length arr.
        isCommander (arr ! i) \<longrightarrow> isCommander (arr ! j) \<longrightarrow> i = j)"

text \<open>
  What the election promises: a ship is returned, it is alive, and it is the one and only
  ship of the roster whose flag is set.
\<close>

definition election_post :: "nat option \<times> ship list \<Rightarrow> bool" where
  "election_post res =
     (case res of (r, arr') \<Rightarrow>
        (case r of
           None \<Rightarrow> False
         | Some c \<Rightarrow> c < length arr' \<and> alive (arr' ! c) \<and>
             (\<forall>j < length arr'. isCommander (arr' ! j) \<longleftrightarrow> j = c)))"

text \<open>The fixed class-priority order BB > CV > DD > TB, as a rank (0 is highest).\<close>

definition class_rank :: "ship_class \<Rightarrow> nat" where
  "class_rank t = (case t of BB \<Rightarrow> 0 | CV \<Rightarrow> 1 | DD \<Rightarrow> 2 | TB \<Rightarrow> 3)"

text \<open>A two-ship roster after spawn whose battleship commander has since been sunk.\<close>

definition demo_fleet :: "ship list" where
  "demo_fleet = [mkShip 0 P kind_BB 500 500 0, mkShip 1 P kind_DD 600 500 0]"

definition demo_fleet_sunk :: "ship list" where
  "demo_fleet_sunk =
     [(mkShip 0 P kind_BB 500 500 0)\<lparr>alive := False, isCommander := True\<rparr>,
      mkShip 1 P kind_DD 600 500 0]"

text \<open>
  A five-ship roster whose battleship commander has been sunk while a torpedo boat, two
  destroyers and a carrier are alive; the carrier is neither the first nor the last living
  ship of the array.
\<close>

definition mixed_fleet_sunk :: "ship list" where
  "mixed_fleet_sunk =
     [(mkShip 0 P kind_BB 500 500 0)\<lparr>alive := False, isCommander := True\<rparr>,
      mkShip 1 P kind_TB 600 500 0,
      mkShip 2 P kind_DD 700 500 0,
      mkShip 3 P kind_CV 800 500 0,
      mkShip 4 P kind_DD 900 500 0]"

text \<open>
  What the election promises after the commander's death: the returned ship is a living
  ship of the roster, it carries the flag afterwards, and no living ship has a class of
  higher priority.
\<close>

definition succession_post :: "ship list \<Rightarrow> nat option \<times> ship list \<Rightarrow> bool" where
  "succession_post arr res =
     (case res of (r, arr') \<Rightarrow>
        (case r of
           None \<Rightarrow> False
         | Some c \<Rightarrow> c < length arr \<and> alive (arr ! c) \<and>
             length arr' = length arr \<and> isCommander (arr' ! c) \<and>
             ktype (kind (arr' ! c)) = ktype (kind (arr ! c)) \<and>
             (\<forall>i < length arr. alive (arr ! i) \<longrightarrow>
                class_rank (ktype (kind (arr ! c))) \<le> class_rank (ktype (kind (arr ! i))))))"


section \<open>Escort lock state machine\<close>

text \<open>
  The lock bookkeeping that \<open>capitalAutoPilot\<close>, \<open>aiStep\<close> and \<open>aiStepPlayer\<close> of the AI
  module run, in the same words, for a ship that follows a leader. The two fields are
  added to the ship object on first use (\<open>undefined\<close> is \<open>None\<close>); \<open>mkShip\<close> does not
  create them. \<open>dForm\<close> is the distance to the formation slot computed earlier in the
  tick and \<open>lockRadius\<close> is the constant \<open>ESCORT_LOCK_RADIUS\<close> of config.js.
  Every assignment to \<open>escortLocked\<close> that changes the mode is also recorded as an event
  of the tick.
\<close>

record escort =
  escortLocked :: "bool option"
  timeInPosition :: "real option"

datatype lock_event = Locks | Unlocks

definition fresh_escort :: escort where
  "fresh_escort = \<lparr>escortLocked = None, timeInPosition = None\<rparr>"

definition is_locked :: "escort \<Rightarrow> bool" where
  "is_locked e = (escortLocked e = Some True)"

definition lock_update :: "real \<Rightarrow> real \<Rightarrow> real \<Rightarrow> escort \<Rightarrow> escort \<times> lock_event list" where
  "lock_update lockRadius dForm dt e =
     (let locked0 = (case escortLocked e of None \<Rightarrow> False | Some b \<Rightarrow> b);
          time0 = (case timeInPosition e of None \<Rightarrow> 0 | Some t \<Rightarrow> t);
          inRadius = (dForm \<le> lockRadius);
          farOutside = (dForm > lockRadius * 3);
          time1 = (if inRadius then time0 + dt else if \<not> locked0 then 0 else time0)
      in if locked0 \<and> farOutside then
           (\<lparr>escortLocked = Some False, timeInPosition = Some 0\<rparr>, [Unlocks])
         else if \<not> locked0 \<and> time1 \<ge> 2.0 then
           (\<lparr>escortLocked = Some True, timeInPosition = Some time1\<rparr>, [Locks])
         else
           (\<lparr>escortLocked = Some locked0, timeInPosition = Some time1\<rparr>, []))"

text \<open>A run of ticks, each given by the slot distance and the time step of the tick.\<close>

fun lock_run :: "real \<Rightarrow> escort \<Rightarrow> (real \<times> real) list \<Rightarrow> escort" where
  "lock_run lockRadius e [] = e"
| "lock_run lockRadius e (tick # ticks) =
     lock_run lockRadius (fst (lock_update lockRadius (fst tick) (snd tick) e)) ticks"

text \<open>
  The hysteresis property of one history of ticks, starting from a new escort:
  (a) if the last tick of the history takes the escort from unlocked to locked, the
  history ends in a block of consecutive ticks, all within the lock radius, whose time
  steps add up to at least 2.0;
  (b) a tick that takes any escort from locked to unlocked has a slot distance beyond
  three times the lock radius, which is no smaller than the lock radius;
  (c) no tick records both a lock and an unlock, and a tick that locks is within the
  lock radius.
\<close>

definition dwell_block :: "real \<Rightarrow> (real \<times> real) list \<Rightarrow> (real \<times> real) list \<Rightarrow> bool" where
  "dwell_block lockRadius ticks dwell =
     ((\<exists>before. ticks = before @ dwell) \<and> dwell \<noteq> [] \<and>
      list_all (\<lambda>tick. fst tick \<le> lockRadius) dwell \<and> 2 \<le> sum_list (map snd dwell))"

definition lock_hysteresis :: "real \<Rightarrow> (real \<times> real) list \<Rightarrow> real \<Rightarrow> real \<Rightarrow> bool" where
  "lock_hysteresis lockRadius history dForm dt =
     (let before = lock_run lockRadius fresh_escort history;
          after = lock_update lockRadius dForm dt before
      in (\<not> is_locked before \<and> is_locked (fst after) \<longrightarrow>
            dForm \<le> lockRadius \<and>
            (\<exists>dwell. dwell_block lockRadius (history @ [(dForm, dt)]) dwell)) \<and>
         (is_locked before \<and> \<not> is_locked (fst after) \<longrightarrow>
            dForm > lockRadius * 3 \<and> lockRadius \<le> lockRadius * 3) \<and>
         \<not> (Locks \<in> set (snd after) \<and> Unlocks \<in> set (snd after)) \<and>
         (Locks \<in> set (snd after) \<longleftrightarrow> \<not> is_locked before \<and> is_locked (fst after)) \<and>
         (Unlocks \<in> set (snd after) \<longleftrightarrow> is_locked before \<and> \<not> is_locked (fst after)))"

text \<open>The ticks at the end of a history that are all within the lock radius.\<close>

definition trailing_dwell :: "real \<Rightarrow> (real \<times> real) list \<Rightarrow> (real \<times> real) list" where
  "trailing_dwell lockRadius ticks = rev (takeWhile (\<lambda>tick. fst tick \<le> lockRadius) (rev ticks))"

definition timer :: "escort \<Rightarrow> real" where
  "timer e = (case timeInPosition e of None \<Rightarrow> 0 | Some t \<Rightarrow> t)"

section \<open>Math helpers\<close>

text \<open>
  utils.js: \<open>clamp(v, lo, hi) = Math.max(lo, Math.min(hi, v))\<close> and \<open>normAngle\<close>, with
  \<open>TAU = 2 * Math.PI\<close>. The remainder \<open>%\<close> of JavaScript truncates the quotient towards
  zero. \<open>Math.hypot\<close> and \<open>Math.atan2\<close> are the library functions, over the reals.

  \<open>Math.atan2\<close> tells the two zeros of the floating-point numbers apart. Every call of the
  program passes differences of coordinates, and a difference that is zero is the
  positive zero, for which \<open>atan2\<close> below is the library function: \<open>atan2(+0, x)\<close> is
  \<open>pi\<close> for negative \<open>x\<close> and \<open>0\<close> otherwise. The one call that negates its arguments,
  \<open>Math.atan2(-dy, -dx)\<close>, passes the negative zero where a difference is zero:
  \<open>atan2(-0, x)\<close> is \<open>-pi\<close> for negative \<open>x\<close> and for \<open>x = -0\<close>. That call is \<open>atan2_neg dy dx\<close>.
\<close>

definition clamp :: "real \<Rightarrow> real \<Rightarrow> real \<Rightarrow> real" where
  "clamp v lo hi = max lo (min hi v)"

definition hypot :: "real \<Rightarrow> real \<Rightarrow> real" where
  "hypot a b = sqrt (a * a + b * b)"

definition atan2 :: "real \<Rightarrow> real \<Rightarrow> real" where
  "atan2 b a =
     (if a > 0 then arctan (b / a)
      else if a < 0 then (if b \<ge> 0 then arctan (b / a) + pi else arctan (b / a) - pi)
      else if b > 0 then pi / 2
      else if b < 0 then - (pi / 2)
      else 0)"

definition atan2_neg :: "real \<Rightarrow> real \<Rightarrow> real" where
  "atan2_neg dy dx = (if dy = 0 \<and> dx \<ge> 0 then - pi else atan2 (- dy) (- dx))"

definition js_rem :: "real \<Rightarrow> real \<Rightarrow> real" where
  "js_rem a b =
     (let q = a / b in a - b * of_int (if q \<ge> 0 then \<lfloor>q\<rfloor> else \<lceil>q\<rceil>))"

definition TAU :: real where
  "TAU = pi * 2"

definition normAngle :: "real \<Rightarrow> real" where
  "normAngle a0 =
     (let a = js_rem a0 TAU;
          a = (if a < - pi then a + TAU else a);
          a = (if a > pi then a - TAU else a)
      in a)"

section \<open>Collision predictor\<close>

text \<open>
  \<open>predictCollision(ship, other, lookAhead)\<close> of the AI module. \<open>v || 0\<close> on a velocity
  is the velocity itself over the reals. The sampling loop
  \<open>for (t = 0.5; t <= lookAhead; t += 0.5)\<close> carries the pair \<open>(minDist, minTime)\<close>.
\<close>

record prediction =
  willCollide :: bool
  timeToCollision :: real
  otherShip :: nat
  urgency :: real
  pdx :: real
  pdy :: real
  currentDist :: real
  futureDist :: "real option"

definition separation_at :: "ship \<Rightarrow> ship \<Rightarrow> real \<Rightarrow> real" where
  "separation_at ship other t =
     (let shipFutureX = shipx ship + shipvx ship * t;
          shipFutureY = shipy ship + shipvy ship * t;
          otherFutureX = shipx other + shipvx other * t;
          otherFutureY = shipy other + shipvy other * t
      in hypot (otherFutureX - shipFutureX) (otherFutureY - shipFutureY))"

function predict_samples :: "ship \<Rightarrow> ship \<Rightarrow> real \<Rightarrow> real \<Rightarrow> real \<times> real \<Rightarrow> real \<times> real" where
  "predict_samples ship other lookAhead t acc =
     (if t \<le> lookAhead then
        (let futureDist = separation_at ship other t
         in predict_samples ship other lookAhead (t + 0.5)
              (if futureDist < fst acc then (futureDist, t) else acc))
      else acc)"
  by pat_completeness auto
termination
proof (relation "measure (\<lambda>(ship, other, lookAhead, t, acc). nat (\<lfloor>(lookAhead - t) * 2\<rfloor> + 1))", goal_cases)
  case 1
  show ?case by simp
next
  case (2 ship other lookAhead t acc futureDist)
  have eq: "(lookAhead - (t + 0.5)) * 2 = (lookAhead - t) * 2 - 1" by argo
  have e: "\<lfloor>(lookAhead - (t + 0.5)) * 2\<rfloor> = \<lfloor>(lookAhead - t) * 2\<rfloor> - 1"
    unfolding eq by (rule floor_diff_one)
  have nn: "0 \<le> \<lfloor>(lookAhead - t) * 2\<rfloor>" using 2 by simp
  have "nat (\<lfloor>(lookAhead - (t + 0.5)) * 2\<rfloor> + 1) < nat (\<lfloor>(lookAhead - t) * 2\<rfloor> + 1)"
    unfolding e using nn by linarith
  then show ?case by (simp only: in_measure prod.case)
qed

definition predictCollision :: "ship \<Rightarrow> ship \<Rightarrow> real \<Rightarrow> prediction option" where
  "predictCollision ship other lookAhead =
     (if \<not> alive ship \<or> \<not> alive other then None
      else if ref ship = ref other then None
      else
        let dx = shipx other - shipx ship;
            dy = shipy other - shipy ship;
            currentDist = hypot dx dy;
            collisionDist = radius (kind ship) + radius (kind other) + 40
        in if currentDist < collisionDist + 30 then
             Some \<lparr>willCollide = True, timeToCollision = 0, otherShip = ref other, urgency = 1.0,
                   pdx = dx, pdy = dy, currentDist = currentDist, futureDist = None\<rparr>
           else
             let (minDist, minTime) = predict_samples ship other lookAhead 0.5 (currentDist, 0);
                 relVx = shipvx ship - shipvx other;
                 relVy = shipvy ship - shipvy other;
                 relSpeed = hypot relVx relVy;
                 (minDist, minTime) =
                   (if relSpeed > 0.5 then
                      (let tcpa = - (dx * relVx + dy * relVy) / (relSpeed * relSpeed)
                       in if tcpa > 0 \<and> tcpa < lookAhead then
                            (let cpaDist = separation_at ship other tcpa
                             in if cpaDist < minDist then (cpaDist, tcpa) else (minDist, minTime))
                          else (minDist, minTime))
                    else (minDist, minTime))
             in if minDist < collisionDist + 60 then
                  Some \<lparr>willCollide = True, timeToCollision = minTime, otherShip = ref other,
                        urgency = clamp (1 - (minTime / lookAhead)) 0.2 1.0,
                        pdx = dx, pdy = dy, currentDist = currentDist, futureDist = Some minDist\<rparr>
                else None)"

text \<open>
  \<open>checkAllCollisions(ship, allShips, lookAhead)\<close>; \<open>Array.prototype.sort\<close> is stable, and
  the comparator orders by descending urgency.
\<close>

fun collect_collisions :: "ship \<Rightarrow> ship list \<Rightarrow> real \<Rightarrow> prediction list" where
  "collect_collisions ship [] lookAhead = []"
| "collect_collisions ship (other # rest) lookAhead =
     (if \<not> alive other \<or> ref other = ref ship then collect_collisions ship rest lookAhead
      else if team other \<noteq> team ship then collect_collisions ship rest lookAhead
      else (case predictCollision ship other lookAhead of
              Some collision \<Rightarrow> collision # collect_collisions ship rest lookAhead
            | None \<Rightarrow> collect_collisions ship rest lookAhead))"

definition checkAllCollisions :: "ship \<Rightarrow> ship list \<Rightarrow> real \<Rightarrow> prediction list" where
  "checkAllCollisions ship allShips lookAhead =
     sort_key (\<lambda>c. - urgency c) (collect_collisions ship allShips lookAhead)"

section \<open>Avoidance steering\<close>

text \<open>
  \<open>calculateAvoidanceSteering(ship, allShips)\<close>. The body of its loop is \<open>avoid_threat\<close>:
  \<open>None\<close> where the iteration ends in \<open>continue\<close>, otherwise the summand added to
  \<open>totalSteer\<close> and the alert stored in \<open>ship.collisionPredicted\<close>. The function returns
  \<open>{steer, throttle}\<close>; the alert it leaves on the ship is the third field of the result.
\<close>

record alert =
  alert_x :: real
  alert_y :: real
  alert_time :: real
  alert_urgency :: real
  withShip :: nat

record avoidance =
  steer :: real
  throttle_adj :: real
  collisionPredicted :: "alert option"

function avoid_samples :: "ship \<Rightarrow> ship \<Rightarrow> real \<Rightarrow> real \<times> real \<Rightarrow> real \<times> real" where
  "avoid_samples ship other t acc =
     (if t \<le> 3.0 then
        (let futureDist = separation_at ship other t
         in avoid_samples ship other (t + 0.3)
              (if futureDist < fst acc then (futureDist, t) else acc))
      else acc)"
  by pat_completeness auto
termination
proof (relation "measure (\<lambda>(ship, other, t, acc). nat (\<lfloor>(3 - t) * 10 / 3\<rfloor> + 1))", goal_cases)
  case 1
  show ?case by simp
next
  case (2 ship other t acc futureDist)
  have eq: "(3 - (t + 0.3)) * 10 / 3 = (3 - t) * 10 / 3 - 1" by argo
  have e: "\<lfloor>(3 - (t + 0.3)) * 10 / 3\<rfloor> = \<lfloor>(3 - t) * 10 / 3\<rfloor> - 1"
    unfolding eq by (rule floor_diff_one)
  have nn: "0 \<le> \<lfloor>(3 - t) * 10 / 3\<rfloor>" using 2 by simp
  have "nat (\<lfloor>(3 - (t + 0.3)) * 10 / 3\<rfloor> + 1) < nat (\<lfloor>(3 - t) * 10 / 3\<rfloor> + 1)"
    unfolding e using nn by linarith
  then show ?case by (simp only: in_measure prod.case)
qed

definition in_danger :: "ship \<Rightarrow> ship \<Rightarrow> bool" where
  "in_danger ship other =
     (let dist = hypot (shipx other - shipx ship) (shipy other - shipy ship);
          collisionDist = radius (kind ship) + radius (kind other) + 25;
          minFutureDist = fst (avoid_samples ship other 0.3 (dist, 0));
          dangerouslyClose = (dist < collisionDist + 40);
          willCollide = (minFutureDist < collisionDist + 30)
      in dangerouslyClose \<or> willCollide)"

definition steer_direction :: "ship \<Rightarrow> ship \<Rightarrow> real" where
  "steer_direction ship other =
     (let dx = shipx other - shipx ship;
          dy = shipy other - shipy ship;
          toOther = atan2 dy dx;
          relAngle = normAngle (toOther - heading ship);
          otherInFront = (\<bar>relAngle\<bar> < pi / 2);
          otherToUs = atan2_neg dy dx;
          otherRelAngle = normAngle (otherToUs - heading other);
          weAreInFrontOfOther = (\<bar>otherRelAngle\<bar> < pi / 2)
      in if otherInFront \<and> \<not> weAreInFrontOfOther then
           (let otherMovingRight = (sin (normAngle (heading other - heading ship)) > 0)
            in if otherMovingRight then - 1 else 1)
         else if \<not> otherInFront \<and> weAreInFrontOfOther then
           (if relAngle > 0 then - 1 else 1)
         else
           (let steerDir = (if relAngle > 0 then - 1 else 1);
                myIdx = (case escortPosition ship of None \<Rightarrow> 0 | Some i \<Rightarrow> i);
                otherIdx = (case escortPosition other of None \<Rightarrow> 0 | Some i \<Rightarrow> i)
            in if myIdx \<noteq> otherIdx then (if myIdx < otherIdx then 1 else - 1) else steerDir))"

definition avoid_threat :: "ship \<Rightarrow> ship \<Rightarrow> (real \<times> alert) option" where
  "avoid_threat ship other =
     (if \<not> alive other \<or> ref other = ref ship then None
      else if team other \<noteq> team ship then None
      else
        let dx = shipx other - shipx ship;
            dy = shipy other - shipy ship;
            dist = hypot dx dy;
            collisionDist = radius (kind ship) + radius (kind other) + 25
        in if dist > 200 then None
           else
             let (minFutureDist, collisionTime) = avoid_samples ship other 0.3 (dist, 0)
             in if \<not> in_danger ship other then None
                else
                  let urgency = clamp (1 - ((min dist minFutureDist - collisionDist) / 50)) 0.3 1.0;
                      steerStrength = 0.35
                  in Some (steer_direction ship other * steerStrength * urgency,
                           \<lparr>alert_x = (shipx ship + shipx other) / 2,
                            alert_y = (shipy ship + shipy other) / 2,
                            alert_time = collisionTime, alert_urgency = urgency,
                            withShip = ref other\<rparr>))"

fun avoid_loop :: "ship \<Rightarrow> ship list \<Rightarrow> real \<times> alert option \<Rightarrow> real \<times> alert option" where
  "avoid_loop ship [] acc = acc"
| "avoid_loop ship (other # rest) acc =
     (case avoid_threat ship other of
        None \<Rightarrow> avoid_loop ship rest acc
      | Some (summand, al) \<Rightarrow> avoid_loop ship rest (fst acc + summand, Some al))"

definition calculateAvoidanceSteering :: "ship \<Rightarrow> ship list \<Rightarrow> avoidance" where
  "calculateAvoidanceSteering ship allShips =
     (let (totalSteer, predicted) = avoid_loop ship allShips (0, None)
      in \<lparr>steer = clamp totalSteer (- 0.55) 0.55, throttle_adj = 0, collisionPredicted = predicted\<rparr>)"

text \<open>
  Two destroyers of one team, 300 units apart, closing head-on at speed 30 each, and a
  third ship of the other team.
\<close>

definition closing_a :: ship where
  "closing_a = (mkShip 0 P kind_DD 1000 1000 0)\<lparr>shipvx := 30\<rparr>"

definition closing_b :: ship where
  "closing_b = (mkShip 1 P kind_DD 1300 1000 pi)\<lparr>shipvx := - 30\<rparr>"

definition raider :: ship where
  "raider = mkShip 2 E kind_TB 1100 1040 0"

definition same_side :: "ship \<Rightarrow> ship \<Rightarrow> bool" where
  "same_side ship other = (alive other \<and> team other = team ship)"

text \<open>
  The head-on scenario: \<open>other\<close> lies 100 units from \<open>ship\<close> in the unit direction
  \<open>(ux, uy)\<close>, and each of the two moves at speed 10 straight towards the other.
\<close>

definition head_on :: "ship \<Rightarrow> ship \<Rightarrow> real \<Rightarrow> real \<Rightarrow> bool" where
  "head_on ship other ux uy =
     (ux * ux + uy * uy = 1 \<and> alive ship \<and> alive other \<and> ref ship \<noteq> ref other \<and>
      shipx other = shipx ship + 100 * ux \<and> shipy other = shipy ship + 100 * uy \<and>
      shipvx ship = 10 * ux \<and> shipvy ship = 10 * uy \<and>
      shipvx other = - 10 * ux \<and> shipvy other = - 10 * uy)"

definition westbound :: "kind \<Rightarrow> ship" where
  "westbound k = (mkShip 1 P k 1100 1000 pi)\<lparr>shipvx := - 10\<rparr>"

definition eastbound :: "kind \<Rightarrow> ship" where
  "eastbound k = (mkShip 0 P k 1000 1000 0)\<lparr>shipvx := 10\<rparr>"

text \<open>
  The steering's own test for one vessel of the roster, as a predicate: the vessel is
  alive, of the ship's team, not the ship itself, at most 200 away, and dangerously close
  now or at one of the sampled times; it is when the loop body adds a summand.
\<close>

definition steering_threat :: "ship \<Rightarrow> ship \<Rightarrow> bool" where
  "steering_threat ship other =
     (alive other \<and> ref other \<noteq> ref ship \<and> team other = team ship \<and>
      hypot (shipx other - shipx ship) (shipy other - shipy ship) \<le> 200 \<and>
      in_danger ship other)"

text \<open>
  Two destroyers of one team at rest 95 units apart, between the steering's band of the
  hull radii plus 65 (93) and the predictor's band of the hull radii plus 70 (98).
\<close>

definition berthed_a :: ship where
  "berthed_a = mkShip 0 P kind_DD 1000 1000 0"

definition berthed_b :: ship where
  "berthed_b = mkShip 1 P kind_DD 1095 1000 0"

text \<open>
  A destroyer at rest with a destroyer of its team 50 units off either beam, a third
  90 units off the first beam, a distant one, and an enemy vessel.
\<close>

definition centre_ship :: ship where
  "centre_ship = mkShip 0 P kind_DD 1000 1000 0"

definition beam_plus :: ship where
  "beam_plus = mkShip 1 P kind_DD 1000 1050 0"

definition beam_minus :: ship where
  "beam_minus = mkShip 2 P kind_DD 1000 950 0"

definition beam_far :: ship where
  "beam_far = mkShip 3 P kind_DD 1000 1090 0"

text \<open>Two destroyers of one team, 50 units apart and at rest.\<close>

definition moored_a :: ship where
  "moored_a = mkShip 0 P kind_DD 1000 1000 0"

definition moored_b :: ship where
  "moored_b = mkShip 1 P kind_DD 1050 1000 pi"

section \<open>Vehicle dynamics\<close>

text \<open>
  The helm fields of a ship object, with the corrupt values the code guards against: a
  JavaScript number is a real, NaN or \<open>undefined\<close>. Arithmetic and \<open>Math\<close> functions
  give NaN as soon as an operand is NaN or \<open>undefined\<close>, comparisons with NaN are false,
  \<open>v || 0\<close> is 0 for NaN, \<open>undefined\<close> and 0, and \<open>isNaN(undefined)\<close> is true.
  Infinities are not modelled, and the rudder and throttle functions compute over the
  reals: their last operation on the rudder or the throttle is a \<open>clamp\<close>, \<open>Math.min\<close> or
  \<open>Math.max\<close>, which returns one of its arguments unrounded. A division by zero is NaN in
  the model and arises only for \<open>MAX_RUDDER_ANGLE = 0\<close>.
\<close>

datatype jsnum = Num real | NaN | Undefined

definition js_or0 :: "jsnum \<Rightarrow> real" where
  "js_or0 v = (case v of Num r \<Rightarrow> r | NaN \<Rightarrow> 0 | Undefined \<Rightarrow> 0)"

definition js_isNaN :: "jsnum \<Rightarrow> bool" where
  "js_isNaN v = (case v of Num r \<Rightarrow> False | NaN \<Rightarrow> True | Undefined \<Rightarrow> True)"

definition js_lift2 :: "(real \<Rightarrow> real \<Rightarrow> real) \<Rightarrow> jsnum \<Rightarrow> jsnum \<Rightarrow> jsnum" where
  "js_lift2 f a b = (case a of Num u \<Rightarrow> (case b of Num v \<Rightarrow> Num (f u v) | NaN \<Rightarrow> NaN | Undefined \<Rightarrow> NaN)
                     | NaN \<Rightarrow> NaN | Undefined \<Rightarrow> NaN)"

definition js_add :: "jsnum \<Rightarrow> jsnum \<Rightarrow> jsnum" where
  "js_add = js_lift2 (\<lambda>u v. u + v)"

definition js_sub :: "jsnum \<Rightarrow> jsnum \<Rightarrow> jsnum" where
  "js_sub = js_lift2 (\<lambda>u v. u - v)"

definition js_mul :: "jsnum \<Rightarrow> jsnum \<Rightarrow> jsnum" where
  "js_mul = js_lift2 (\<lambda>u v. u * v)"

definition js_max :: "jsnum \<Rightarrow> jsnum \<Rightarrow> jsnum" where
  "js_max = js_lift2 max"

definition js_min :: "jsnum \<Rightarrow> jsnum \<Rightarrow> jsnum" where
  "js_min = js_lift2 min"

definition js_div :: "jsnum \<Rightarrow> jsnum \<Rightarrow> jsnum" where
  "js_div a b = (case b of Num v \<Rightarrow> (if v = 0 then NaN else js_lift2 (\<lambda>u w. u / w) a b)
                 | NaN \<Rightarrow> NaN | Undefined \<Rightarrow> NaN)"

definition js_abs :: "jsnum \<Rightarrow> jsnum" where
  "js_abs v = (case v of Num r \<Rightarrow> Num \<bar>r\<bar> | NaN \<Rightarrow> NaN | Undefined \<Rightarrow> NaN)"

definition js_sign :: "jsnum \<Rightarrow> jsnum" where
  "js_sign v = (case v of Num r \<Rightarrow> Num (sgn r) | NaN \<Rightarrow> NaN | Undefined \<Rightarrow> NaN)"

definition js_clamp :: "jsnum \<Rightarrow> jsnum \<Rightarrow> jsnum \<Rightarrow> jsnum" where
  "js_clamp v lo hi = js_max lo (js_min hi v)"

record helm =
  rudderAngle :: jsnum
  angularVel :: jsnum
  helm_heading :: jsnum
  throttle :: jsnum

text \<open>
  The constants of config.js that the functions below read. The current config.js is not
  part of the sources at hand, so the constants are a parameter; \<open>old_config\<close> holds the
  values of old/js/config.js.
\<close>

record config =
  WORLD_w :: real
  WORLD_h :: real
  MAX_RUDDER_ANGLE :: real
  THROTTLE_CHANGE_RATE :: real
  RUDDER_MOVE_RATE :: real
  RUDDER_RETURN_RATE :: real
  ANGULAR_ACCEL :: real
  ANGULAR_INERTIA :: real
  DRAG_BB :: real
  DRAG_DD :: real
  REVERSE_SPEED_MULT :: real
  SPEED_INERTIA :: real

definition old_config :: config where
  "old_config =
     \<lparr>WORLD_w = 8960, WORLD_h = 6160, MAX_RUDDER_ANGLE = pi / 6, THROTTLE_CHANGE_RATE = 45,
      RUDDER_MOVE_RATE = 0.2, RUDDER_RETURN_RATE = 0.3, ANGULAR_ACCEL = 0.5,
      ANGULAR_INERTIA = 0.995, DRAG_BB = 0.997, DRAG_DD = 0.996, REVERSE_SPEED_MULT = 0.5,
      SPEED_INERTIA = 0.92\<rparr>"

text \<open>
  The turn-rate filter that ends both rudder functions: from the clamped rudder to the
  new angular velocity and heading, and the closing NaN check on the rudder.
  \<open>accelGain\<close>, \<open>changeCap\<close> and \<open>inertia\<close> are 0.6, 0.8 and 0.98 in \<open>applyRudder\<close> and
  \<open>ANGULAR_ACCEL\<close>, 2 and \<open>ANGULAR_INERTIA\<close> in \<open>applyPlayerRudder\<close>.
\<close>

definition turn_filter :: "config \<Rightarrow> real \<Rightarrow> real \<Rightarrow> real \<Rightarrow> real \<Rightarrow> helm \<Rightarrow> jsnum \<Rightarrow> real \<Rightarrow> helm" where
  "turn_filter cfg turnRate0 accelGain changeCap inertia h rudder1 dt =
     (let rudder2 = js_clamp rudder1 (Num (- MAX_RUDDER_ANGLE cfg)) (Num (MAX_RUDDER_ANGLE cfg));
          turnFraction = js_div (js_abs rudder2) (Num (MAX_RUDDER_ANGLE cfg));
          targetTurnRate = js_mul (js_mul (Num turnRate0) turnFraction) (js_sign rudder2);
          av0 = (if angularVel h = Undefined \<or> js_isNaN (angularVel h) then Num 0 else angularVel h);
          angularDiff = js_sub targetTurnRate av0;
          maxAngularChange = turnRate0 * dt * changeCap;
          av1 = js_add av0 (js_clamp (js_mul (js_mul angularDiff (Num accelGain)) (Num dt))
                              (Num (- maxAngularChange)) (Num maxAngularChange));
          av2 = js_mul av1 (Num inertia);
          heading1 = js_add (helm_heading h) (js_mul av2 (Num dt));
          rudder3 = (if js_isNaN rudder2 \<or> rudder2 = Undefined then Num 0 else rudder2)
      in h\<lparr>rudderAngle := rudder3, angularVel := av2, helm_heading := heading1\<rparr>)"

text \<open>\<open>applyRudder(ship, desiredTurn, dt)\<close> of the AI module; \<open>turnRate0\<close> is \<open>ship.kind.turnRate\<close>.\<close>

definition applyRudder :: "config \<Rightarrow> real \<Rightarrow> helm \<Rightarrow> real \<Rightarrow> real \<Rightarrow> helm" where
  "applyRudder cfg turnRate0 h desiredTurn dt =
     (let targetRudder = clamp desiredTurn (- MAX_RUDDER_ANGLE cfg) (MAX_RUDDER_ANGLE cfg);
          rudderSpeed = 0.3;
          diff = targetRudder - js_or0 (rudderAngle h);
          maxChange = rudderSpeed * dt;
          rudder1 =
            (if \<bar>diff\<bar> > 0.01 then
               Num (js_or0 (rudderAngle h) + clamp diff (- maxChange) maxChange)
             else if \<bar>targetRudder\<bar> < 0.02 then
               (let returnSpeed = 0.2 * dt
                in if \<bar>js_or0 (rudderAngle h)\<bar> < returnSpeed then Num 0
                   else js_sub (Num (js_or0 (rudderAngle h)))
                          (js_mul (js_sign (rudderAngle h)) (Num returnSpeed)))
             else rudderAngle h)
      in turn_filter cfg turnRate0 0.6 0.8 0.98 h rudder1 dt)"

text \<open>\<open>applyPlayerRudder(ship, steerInput, dt)\<close> of the input module.\<close>

definition applyPlayerRudder :: "config \<Rightarrow> real \<Rightarrow> helm \<Rightarrow> real \<Rightarrow> real \<Rightarrow> helm" where
  "applyPlayerRudder cfg turnRate0 h steerInput dt =
     (let rudder1 =
            (if steerInput \<noteq> 0 then
               Num (js_or0 (rudderAngle h) + steerInput * RUDDER_MOVE_RATE cfg * dt)
             else
               (let returnSpeed = RUDDER_RETURN_RATE cfg * dt
                in if \<bar>js_or0 (rudderAngle h)\<bar> < returnSpeed then Num 0
                   else js_sub (Num (js_or0 (rudderAngle h)))
                          (js_mul (js_sign (rudderAngle h)) (Num returnSpeed))))
      in turn_filter cfg turnRate0 (ANGULAR_ACCEL cfg) 2 (ANGULAR_INERTIA cfg) h rudder1 dt)"

text \<open>
  \<open>updateAIThrottle(ship, targetThrottle, dt)\<close>. After the guard on its first line the
  throttle read is a number.
\<close>

definition updateAIThrottle :: "config \<Rightarrow> helm \<Rightarrow> real \<Rightarrow> real \<Rightarrow> helm" where
  "updateAIThrottle cfg h targetThrottle dt =
     (let throttle0 = (if js_isNaN (throttle h) \<or> throttle h = Undefined then 50 else js_or0 (throttle h));
          throttleDiff = targetThrottle - throttle0;
          maxChange = THROTTLE_CHANGE_RATE cfg * dt;
          throttle1 = (if \<bar>throttleDiff\<bar> \<le> maxChange then targetThrottle
                       else throttle0 + sgn throttleDiff * maxChange)
      in h\<lparr>throttle := Num (clamp throttle1 0 100)\<rparr>)"

text \<open>
  \<open>updateThrottle(ship, dt)\<close> of the input module, run by \<open>playerControl\<close> for the ship the
  player steers; \<open>keyW\<close> and \<open>keyS\<close> say whether the keys are held.
\<close>

definition updateThrottle :: "config \<Rightarrow> bool \<Rightarrow> bool \<Rightarrow> helm \<Rightarrow> real \<Rightarrow> helm" where
  "updateThrottle cfg keyW keyS h dt =
     (let t1 = (if keyW then js_min (Num 100) (js_add (throttle h) (Num (THROTTLE_CHANGE_RATE cfg * dt)))
                else throttle h);
          t2 = (if keyS then js_max (Num (- 100)) (js_sub t1 (Num (THROTTLE_CHANGE_RATE cfg * dt)))
                else t1);
          t3 = (if js_isNaN t2 \<or> t2 = Undefined then Num 50 else t2)
      in h\<lparr>throttle := t3\<rparr>)"

section \<open>Obstacle model\<close>

text \<open>
  The islands of the active map, \<open>mapById(state.mapId).land\<close>, are a list of circles. An
  island object is referred to by its position in the list, which is what the identity
  tests of the planners compare. \<open>inLand(x, y, pad, state)\<close> returns the first island in
  whose padded disc the point lies.
\<close>

record island =
  ix :: real
  iy :: real
  ir :: real

definition inLand :: "real \<Rightarrow> real \<Rightarrow> real \<Rightarrow> island list \<Rightarrow> nat option" where
  "inLand x0 y0 pad land =
     find (\<lambda>i. let c = land ! i;
                    dx = x0 - ix c; dy = y0 - iy c;
                    rr = ir c + pad
                in dx * dx + dy * dy \<le> rr * rr) [0..<length land]"

section \<open>Floating-point arithmetic\<close>

text \<open>
  The program computes in binary64. Where a bound of the vehicle dynamics depends on the
  rounding, the arithmetic is a parameter of the model: \<open>rnd\<close> rounds the exact result of
  an operation (and a decimal literal or a constant of config.js when it is read), and
  \<open>lib_hypot\<close>, \<open>lib_cos\<close>, \<open>lib_sin\<close>, \<open>lib_pow\<close> are \<open>Math.hypot\<close>, \<open>Math.cos\<close>, \<open>Math.sin\<close> and
  \<open>Math.pow\<close>. \<open>exact_arith\<close> computes over the reals. \<open>binary64\<close> rounds to the nearest
  number with a significand of 53 bits, ties to the even significand, and takes the
  library functions as correctly rounded; overflow and subnormal numbers are left out,
  the exponent is unbounded. \<open>sound_arith u ar\<close> says that every rounded result and
  every result of \<open>Math.hypot\<close> is within the relative error \<open>u\<close> of the exact one.
  \<open>Math.pow(x, 0)\<close> is 1, and for a positive base \<open>Math.pow\<close> is \<open>powr\<close>.
\<close>

record arith =
  rnd :: "real \<Rightarrow> real"
  lib_hypot :: "real \<Rightarrow> real \<Rightarrow> real"
  lib_cos :: "real \<Rightarrow> real"
  lib_sin :: "real \<Rightarrow> real"
  lib_pow :: "real \<Rightarrow> real \<Rightarrow> real"

definition js_pow :: "real \<Rightarrow> real \<Rightarrow> real" where
  "js_pow a b = (if b = 0 then 1 else a powr b)"

definition exact_arith :: arith where
  "exact_arith = \<lparr>rnd = (\<lambda>x. x), lib_hypot = hypot, lib_cos = cos, lib_sin = sin, lib_pow = js_pow\<rparr>"

definition round_even :: "real \<Rightarrow> int" where
  "round_even m =
     (let f = \<lfloor>m\<rfloor>; d = m - of_int f
      in if d < 1 / 2 then f else if 1 / 2 < d then f + 1 else if even f then f else f + 1)"

definition fl64 :: "real \<Rightarrow> real" where
  "fl64 x =
     (if x = 0 then 0
      else let e = \<lfloor>log 2 \<bar>x\<bar>\<rfloor>; ulp = 2 powr (of_int e - 52)
           in of_int (round_even (x / ulp)) * ulp)"

definition binary64 :: arith where
  "binary64 =
     \<lparr>rnd = fl64, lib_hypot = (\<lambda>a b. fl64 (hypot a b)), lib_cos = (\<lambda>a. fl64 (cos a)),
      lib_sin = (\<lambda>a. fl64 (sin a)), lib_pow = (\<lambda>a b. fl64 (js_pow a b))\<rparr>"

definition sound_arith :: "real \<Rightarrow> arith \<Rightarrow> bool" where
  "sound_arith u ar =
     ((\<forall>x. \<bar>rnd ar x - x\<bar> \<le> u * \<bar>x\<bar>) \<and>
      (\<forall>a b. \<bar>lib_hypot ar a b - hypot a b\<bar> \<le> u * hypot a b))"

definition fadd :: "arith \<Rightarrow> real \<Rightarrow> real \<Rightarrow> real" where
  "fadd ar a b = rnd ar (a + b)"

definition fsub :: "arith \<Rightarrow> real \<Rightarrow> real \<Rightarrow> real" where
  "fsub ar a b = rnd ar (a - b)"

definition fmul :: "arith \<Rightarrow> real \<Rightarrow> real \<Rightarrow> real" where
  "fmul ar a b = rnd ar (a * b)"

definition fdiv :: "arith \<Rightarrow> real \<Rightarrow> real \<Rightarrow> real" where
  "fdiv ar a b = rnd ar (a / b)"

definition lit :: "arith \<Rightarrow> real \<Rightarrow> real" where
  "lit ar c = rnd ar c"

section \<open>Physics step\<close>

text \<open>
  \<open>resolveShipLand(ship, dt)\<close> and \<open>withinWorld(obj, radius)\<close> of game.js, as far as they
  move the ship and change its velocity (the grounding damage and messages are left out),
  and \<open>physicsStep(ship, dt)\<close> up to and including these two calls; the rest of
  \<open>physicsStep\<close> counts down weapon timers and records the trail. Every operation is
  rounded by the arithmetic \<open>ar\<close>. \<open>Math.hypot(dx, dy) || 1\<close> is 1 when the distance is 0.
  The test of \<open>inLand\<close> is the one of the obstacle model, over the reals: what is proved
  below of the velocity holds whichever island it finds, or none.

  The ship object is split in two: the helm fields, which can hold NaN, and the body,
  whose position and velocity are numbers. \<open>physicsStep\<close> reads the throttle as
  \<open>ship.throttle || 0\<close> and the heading unguarded: with a heading that is not a number the
  target velocity, the velocity, the speed and the position all become NaN, no comparison
  holds any more and the NaN stays; that outcome is \<open>None\<close>. The field \<open>heading\<close> of the
  body record is the number the geometry of the other sections reads and plays no part
  here.
\<close>

definition resolveShipLand :: "arith \<Rightarrow> island list \<Rightarrow> ship \<Rightarrow> ship" where
  "resolveShipLand ar land s =
     (case inLand (shipx s) (shipy s) (radius (kind s)) land of
        None \<Rightarrow> s
      | Some i \<Rightarrow>
          (let hit = land ! i;
               dx = fsub ar (shipx s) (ix hit); dy = fsub ar (shipy s) (iy hit);
               d = (if lib_hypot ar dx dy = 0 then 1 else lib_hypot ar dx dy);
               want = fadd ar (fadd ar (ir hit) (radius (kind s))) 0.5;
               nx = fdiv ar dx d; ny = fdiv ar dy d;
               vn = fadd ar (fmul ar (shipvx s) nx) (fmul ar (shipvy s) ny);
               s1 = s\<lparr>shipx := fadd ar (ix hit) (fmul ar (fdiv ar dx d) want),
                      shipy := fadd ar (iy hit) (fmul ar (fdiv ar dy d) want)\<rparr>
           in if vn < 0 then
                s1\<lparr>shipvx := fmul ar (fsub ar (shipvx s) (fmul ar (fmul ar vn nx) (lit ar 1.8))) (lit ar 0.35),
                   shipvy := fmul ar (fsub ar (shipvy s) (fmul ar (fmul ar vn ny) (lit ar 1.8))) (lit ar 0.35)\<rparr>
              else s1))"

definition withinWorld :: "config \<Rightarrow> arith \<Rightarrow> ship \<Rightarrow> real \<Rightarrow> ship" where
  "withinWorld cfg ar s rad =
     s\<lparr>shipx := clamp (shipx s) rad (fsub ar (WORLD_w cfg) rad),
       shipy := clamp (shipy s) rad (fsub ar (WORLD_h cfg) rad)\<rparr>"

definition physicsStep :: "config \<Rightarrow> arith \<Rightarrow> island list \<Rightarrow> helm \<Rightarrow> ship \<Rightarrow> real \<Rightarrow> ship option" where
  "physicsStep cfg ar land h s dt =
     (let drag = lit ar (if ktype (kind s) = BB then DRAG_BB cfg else DRAG_DD cfg)
      in if \<not> alive s then
           Some (s\<lparr>shipvx := fmul ar (shipvx s) drag, shipvy := fmul ar (shipvy s) drag\<rparr>)
         else
           (case helm_heading h of
              Num hdg \<Rightarrow>
                (let throttleAbs = \<bar>js_or0 (throttle h)\<bar>;
                     isReverse = (js_or0 (throttle h) < 0);
                     maxSpeed0 = fmul ar (maxSpeed (kind s))
                                   (if isReverse then lit ar (REVERSE_SPEED_MULT cfg) else 1);
                     targetSpeed = fmul ar (fdiv ar throttleAbs 100) maxSpeed0;
                     speed0 = (case currentSpeed s of None \<Rightarrow> 0 | Some c \<Rightarrow> c);
                     speedInertia = lit ar (if SPEED_INERTIA cfg = 0 then 0.92 else SPEED_INERTIA cfg);
                     speed1 = fadd ar (fmul ar speed0 speedInertia)
                                (fmul ar targetSpeed (fsub ar 1 speedInertia));
                     direction = (if isReverse then - 1 else 1);
                     targetVx = fmul ar (fmul ar (lib_cos ar hdg) speed1) direction;
                     targetVy = fmul ar (fmul ar (lib_sin ar hdg) speed1) direction;
                     vx1 = fadd ar (fmul ar (shipvx s) (lit ar 0.9)) (fmul ar targetVx (lit ar 0.1));
                     vy1 = fadd ar (fmul ar (shipvy s) (lit ar 0.9)) (fmul ar targetVy (lit ar 0.1));
                     dragPow = lib_pow ar drag (fmul ar dt 60);
                     vx2 = fmul ar vx1 dragPow;
                     vy2 = fmul ar vy1 dragPow;
                     sp = lib_hypot ar vx2 vy2;
                     k = fdiv ar (maxSpeed (kind s)) sp;
                     vx3 = (if sp > maxSpeed (kind s) then fmul ar vx2 k else vx2);
                     vy3 = (if sp > maxSpeed (kind s) then fmul ar vy2 k else vy2);
                     s1 = s\<lparr>currentSpeed := Some speed1, shipvx := vx3, shipvy := vy3,
                            shipx := fadd ar (shipx s) (fmul ar vx3 dt),
                            shipy := fadd ar (shipy s) (fmul ar vy3 dt)\<rparr>
                 in Some (withinWorld cfg ar (resolveShipLand ar land s1) (radius (kind s1))))
            | NaN \<Rightarrow> None
            | Undefined \<Rightarrow> None))"



text \<open>
  The helm of a new ship (\<open>mkShip\<close>: throttle 50, rudder and angular velocity 0), the
  same helm with the rudder corrupted, and the helm of a ship whose throttle is at 0.
\<close>

definition new_helm :: "real \<Rightarrow> helm" where
  "new_helm h0 = \<lparr>rudderAngle = Num 0, angularVel = Num 0, helm_heading = Num h0, throttle = Num 50\<rparr>"

definition corrupt_helm :: helm where
  "corrupt_helm = (new_helm 0)\<lparr>rudderAngle := NaN\<rparr>"


definition is_number :: "jsnum \<Rightarrow> bool" where
  "is_number v = (case v of Num r \<Rightarrow> True | NaN \<Rightarrow> False | Undefined \<Rightarrow> False)"

section \<open>The tick of one ship\<close>

text \<open>
  In a tick the navigation code of a living ship writes its helm and its velocity, and
  \<open>physicsStep\<close> then runs for every ship, living or not (\<open>tick\<close> of game.js; the navigation
  functions return at once for a ship that is not alive). These are all the writes of
  the rudder, the throttle, the heading and the velocity outside \<open>physicsStep\<close>:

  \<^item> \<open>RudderAI d\<close> is \<open>applyRudder(ship, d, dt)\<close>, \<open>ThrottleAI t\<close> is
    \<open>updateAIThrottle(ship, t, dt)\<close>, \<open>RudderPlayer i\<close> is \<open>applyPlayerRudder(ship, i, dt)\<close>
    and \<open>ThrottlePlayer w s\<close> is \<open>updateThrottle(ship, dt)\<close> with the keys W and S held or
    not. These four end in \<open>clamp\<close>, \<open>Math.min\<close> or \<open>Math.max\<close>, which do not round.
  \<^item> \<open>Thrust a\<close> is \<open>ship.vx += Math.cos(ship.heading) * accel * dt\<close> with its twin for
    \<open>vy\<close>, and \<open>Damp\<close> is \<open>ship.vx *= 0.95; ship.vy *= 0.95\<close>, both of \<open>steerToPoint\<close>.
  \<^item> The branch of a locked escort (in \<open>capitalAutoPilot\<close>, \<open>aiStep\<close> and \<open>aiStepPlayer\<close>)
    writes the ship directly: \<open>HeadingMatch lh\<close> turns the heading towards the leader's
    heading \<open>lh\<close>; \<open>SpeedMatch ls dForm toTarget\<close> sets the velocity from the leader's
    speed \<open>ls\<close>, with the correction towards the slot when it is more than 5 away;
    \<open>RudderEase\<close> is \<open>ship.rudderAngle = (ship.rudderAngle || 0) * 0.95\<close>; and
    \<open>ThrottleMatch ls\<close> is \<open>ship.throttle = clamp((ls / ship.kind.maxSpeed) * 100, 0, 100)\<close>,
    where a division by a top speed of 0 gives an infinity or, for \<open>0 / 0\<close>, NaN.

  The arguments stand for what the caller computes from the rest of the game (the
  desired turn, the target throttle, the leader's heading and speed, which are numbers).
  A write that reads a heading that is not a number leaves NaN in the velocity: \<open>None\<close>.
\<close>

record vessel =
  controls :: helm
  body :: ship

datatype nav_write =
    RudderAI real
  | ThrottleAI real
  | RudderPlayer real
  | ThrottlePlayer bool bool
  | Thrust real
  | Damp
  | HeadingMatch real
  | SpeedMatch real real real
  | RudderEase
  | ThrottleMatch real

definition set_velocity :: "vessel \<Rightarrow> real \<Rightarrow> real \<Rightarrow> vessel" where
  "set_velocity v a b = v\<lparr>body := (body v)\<lparr>shipvx := a, shipvy := b\<rparr>\<rparr>"

definition apply_write :: "config \<Rightarrow> arith \<Rightarrow> real \<Rightarrow> nav_write \<Rightarrow> vessel \<Rightarrow> vessel option" where
  "apply_write cfg ar dt w v =
     (let h = controls v; s = body v
      in case w of
           RudderAI desiredTurn \<Rightarrow>
             Some (v\<lparr>controls := applyRudder cfg (turnRate (kind s)) h desiredTurn dt\<rparr>)
         | ThrottleAI targetThrottle \<Rightarrow>
             Some (v\<lparr>controls := updateAIThrottle cfg h targetThrottle dt\<rparr>)
         | RudderPlayer steerInput \<Rightarrow>
             Some (v\<lparr>controls := applyPlayerRudder cfg (turnRate (kind s)) h steerInput dt\<rparr>)
         | ThrottlePlayer keyW keyS \<Rightarrow>
             Some (v\<lparr>controls := updateThrottle cfg keyW keyS h dt\<rparr>)
         | Thrust a \<Rightarrow>
             (case helm_heading h of
                Num hdg \<Rightarrow>
                  Some (set_velocity v
                          (fadd ar (shipvx s) (fmul ar (fmul ar (lib_cos ar hdg) a) dt))
                          (fadd ar (shipvy s) (fmul ar (fmul ar (lib_sin ar hdg) a) dt)))
              | NaN \<Rightarrow> None
              | Undefined \<Rightarrow> None)
         | Damp \<Rightarrow>
             Some (set_velocity v (fmul ar (shipvx s) (lit ar 0.95)) (fmul ar (shipvy s) (lit ar 0.95)))
         | HeadingMatch leaderHeading \<Rightarrow>
             (case helm_heading h of
                Num hdg \<Rightarrow>
                  (let headingDiff = normAngle (fsub ar leaderHeading hdg);
                       hdg1 = fadd ar hdg (fmul ar (fmul ar (fmul ar headingDiff (lit ar 0.03)) dt) 60)
                   in Some (v\<lparr>controls := h\<lparr>helm_heading := Num (normAngle hdg1)\<rparr>\<rparr>))
              | NaN \<Rightarrow> Some (v\<lparr>controls := h\<lparr>helm_heading := NaN\<rparr>\<rparr>)
              | Undefined \<Rightarrow> Some (v\<lparr>controls := h\<lparr>helm_heading := NaN\<rparr>\<rparr>))
         | SpeedMatch leaderSpeed dForm toTarget \<Rightarrow>
             (case helm_heading h of
                Num hdg \<Rightarrow>
                  (let mySpeed = lib_hypot ar (shipvx s) (shipvy s);
                       newSpeed = fadd ar mySpeed
                                    (fmul ar (fmul ar (fmul ar (fsub ar leaderSpeed mySpeed) (lit ar 0.02)) dt) 60);
                       vx1 = fmul ar (lib_cos ar hdg) newSpeed;
                       vy1 = fmul ar (lib_sin ar hdg) newSpeed;
                       correctionStrength = min (fmul ar dForm (lit ar 0.008)) (lit ar 0.3)
                   in if dForm > 5 then
                        Some (set_velocity v
                                (fadd ar vx1 (fmul ar (lib_cos ar toTarget) correctionStrength))
                                (fadd ar vy1 (fmul ar (lib_sin ar toTarget) correctionStrength)))
                      else Some (set_velocity v vx1 vy1))
              | NaN \<Rightarrow> None
              | Undefined \<Rightarrow> None)
         | RudderEase \<Rightarrow>
             Some (v\<lparr>controls := h\<lparr>rudderAngle := Num (fmul ar (js_or0 (rudderAngle h)) (lit ar 0.95))\<rparr>\<rparr>)
         | ThrottleMatch leaderSpeed \<Rightarrow>
             (let m = maxSpeed (kind s);
                  t = (if m = 0 then (if leaderSpeed = 0 then NaN
                                      else Num (if 0 < leaderSpeed then 100 else 0))
                       else Num (clamp (fmul ar (fdiv ar leaderSpeed m) 100) 0 100))
              in Some (v\<lparr>controls := h\<lparr>throttle := t\<rparr>\<rparr>)))"

fun run_writes :: "config \<Rightarrow> arith \<Rightarrow> real \<Rightarrow> nav_write list \<Rightarrow> vessel \<Rightarrow> vessel option" where
  "run_writes cfg ar dt [] v = Some v"
| "run_writes cfg ar dt (w # ws) v =
     (case apply_write cfg ar dt w v of
        None \<Rightarrow> None
      | Some v1 \<Rightarrow> run_writes cfg ar dt ws v1)"

definition ship_tick :: "config \<Rightarrow> arith \<Rightarrow> island list \<Rightarrow> nav_write list \<Rightarrow> vessel \<Rightarrow> real \<Rightarrow> vessel option" where
  "ship_tick cfg ar land ws v dt =
     (case (if alive (body v) then run_writes cfg ar dt ws v else Some v) of
        None \<Rightarrow> None
      | Some v1 \<Rightarrow>
          (case physicsStep cfg ar land (controls v1) (body v1) dt of
             None \<Rightarrow> None
           | Some s \<Rightarrow> Some (v1\<lparr>body := s\<rparr>)))"


definition steerToPoint_critical_writes :: "real \<Rightarrow> real \<Rightarrow> nav_write list" where
  "steerToPoint_critical_writes desiredTurn a = [RudderAI desiredTurn, Damp, Thrust a]"



definition locked_escort_writes :: "real \<Rightarrow> real \<Rightarrow> real \<Rightarrow> real \<Rightarrow> real \<Rightarrow> nav_write list" where
  "locked_escort_writes leaderHeading leaderSpeed dForm toTarget avoidSteer =
     [HeadingMatch leaderHeading, SpeedMatch leaderSpeed dForm toTarget,
      (if avoidSteer \<noteq> 0 then RudderAI avoidSteer else RudderEase),
      ThrottleMatch leaderSpeed]"


text \<open>
  The bounds of the vehicle dynamics for an arithmetic of relative error \<open>u\<close>: the class
  has a positive top speed; rudder, throttle, angular velocity and heading are numbers;
  the rudder is within the maximum deflection; the throttle is in [-100, 100]; and the
  speed is at most the top speed of the class times \<open>tolerance u\<close>, which is 1 for exact
  arithmetic and below 1 + 4 * 10^-16 for binary64.
\<close>

definition tolerance :: "real \<Rightarrow> real" where
  "tolerance u = (1 + u) * (1 + u) / (1 - u)"





text \<open>
  The states of a ship in a game: \<open>mkShip\<close> creates it, ticks move it, and the damage code
  may sink it between the physics step of one tick and the navigation of the next.
\<close>

definition new_vessel :: "nat \<Rightarrow> team \<Rightarrow> kind \<Rightarrow> real \<Rightarrow> real \<Rightarrow> real \<Rightarrow> vessel" where
  "new_vessel r tm k x0 y0 h = \<lparr>controls = new_helm h, body = mkShip r tm k x0 y0 h\<rparr>"

inductive sailing :: "config \<Rightarrow> arith \<Rightarrow> island list \<Rightarrow> vessel \<Rightarrow> bool"
  for cfg :: config and ar :: arith and land :: "island list" where
  launched: "0 < maxSpeed k \<Longrightarrow> sailing cfg ar land (new_vessel r tm k x0 y0 h)"
| ticked: "sailing cfg ar land v \<Longrightarrow> 0 \<le> dt \<Longrightarrow> ship_tick cfg ar land ws v dt = Some v' \<Longrightarrow>
           sailing cfg ar land v'"
| sunk: "sailing cfg ar land v \<Longrightarrow> sailing cfg ar land (v\<lparr>body := (body v)\<lparr>alive := False\<rparr>\<rparr>)"

text \<open>
  The destroyer class as the program holds it: \<open>maxSpeed: 115 * SHIP_SPEED_SCALE\<close> and
  \<open>accel: 70 * SHIP_ACCEL_SCALE\<close> are computed in binary64 from the literal 0.28. An enemy
  destroyer heading east at full throttle and at its full target speed, making 32.0625
  along its heading and 1.375 across; the time step of a frame at 60 Hz; and the thrust of
  \<open>steerToPoint\<close> for a ship below the wanted speed, \<open>ship.kind.accel * 0.8\<close>.
\<close>

definition kind_DD64 :: kind where
  "kind_DD64 = kind_DD\<lparr>maxSpeed := fmul binary64 115 (lit binary64 0.28),
                        accel := fmul binary64 70 (lit binary64 0.28)\<rparr>"






section \<open>Local avoidance planner\<close>

text \<open>
  \<open>pathCrossesLand(sx, sy, tx, ty, pad, state)\<close>: the first island for which a sample of
  the segment, or the point of the segment closest to the island's centre, is nearer
  than the island's radius plus the pad. The source returns the island together with the
  sample; its callers read the island only, which is what the model returns.
\<close>

definition segment_hits :: "real \<Rightarrow> real \<Rightarrow> real \<Rightarrow> real \<Rightarrow> real \<Rightarrow> real \<Rightarrow> real \<Rightarrow> island \<Rightarrow> bool" where
  "segment_hits sx sy vx vy vv pathLen pad c =
     (let margin = ir c + pad;
          numChecks = max 5 \<lceil>pathLen / 200\<rceil>
      in list_ex (\<lambda>i. let t = of_int i / of_int numChecks;
                          px = sx + vx * t; py = sy + vy * t
                      in hypot (px - ix c) (py - iy c) < margin) [0..numChecks] \<or>
         (let t = clamp (((ix c - sx) * vx + (iy c - sy) * vy) / vv) 0 1;
              cx = sx + vx * t; cy = sy + vy * t
          in hypot (cx - ix c) (cy - iy c) < margin))"

definition pathCrossesLand :: "real \<Rightarrow> real \<Rightarrow> real \<Rightarrow> real \<Rightarrow> real \<Rightarrow> island list \<Rightarrow> nat option" where
  "pathCrossesLand sx sy tx ty pad land =
     (let vx = tx - sx; vy = ty - sy;
          vv = vx * vx + vy * vy
      in if vv < 1 / 1000000 then None
         else find (\<lambda>i. segment_hits sx sy vx vy vv (sqrt vv) pad (land ! i)) [0..<length land])"

text \<open>The loops \<open>while (angleDiff > Math.PI) angleDiff -= Math.PI * 2\<close> and its mirror.\<close>

function wrap_down :: "real \<Rightarrow> real" where
  "wrap_down a = (if a > pi then wrap_down (a - pi * 2) else a)"
  by pat_completeness auto
termination
proof (relation "measure (\<lambda>a. nat \<lceil>a / (pi * 2)\<rceil>)", goal_cases)
  case 1
  show ?case by simp
next
  case (2 a)
  have eq: "(a - pi * 2) / (pi * 2) = a / (pi * 2) - 1"
    by (simp add: diff_divide_distrib)
  have "0 < a" using 2 pi_gt_zero by linarith
  then have "0 < a / (pi * 2)" using pi_gt_zero by simp
  then have pos: "0 < \<lceil>a / (pi * 2)\<rceil>" by simp
  have "nat \<lceil>(a - pi * 2) / (pi * 2)\<rceil> < nat \<lceil>a / (pi * 2)\<rceil>"
    unfolding eq ceiling_diff_one using pos by linarith
  then show ?case by (simp only: in_measure)
qed

function wrap_up :: "real \<Rightarrow> real" where
  "wrap_up a = (if a < - pi then wrap_up (a + pi * 2) else a)"
  by pat_completeness auto
termination
proof (relation "measure (\<lambda>a. nat \<lceil>- a / (pi * 2)\<rceil>)", goal_cases)
  case 1
  show ?case by simp
next
  case (2 a)
  have eq: "- (a + pi * 2) / (pi * 2) = - a / (pi * 2) - 1"
    by (simp add: diff_divide_distrib add_divide_distrib)
  have "0 < - a" using 2 pi_gt_zero by linarith
  then have "0 < - a / (pi * 2)" using pi_gt_zero by (intro divide_pos_pos) simp_all
  then have pos: "0 < \<lceil>- a / (pi * 2)\<rceil>" by simp
  have "nat \<lceil>- (a + pi * 2) / (pi * 2)\<rceil> < nat \<lceil>- a / (pi * 2)\<rceil>"
    unfolding eq ceiling_diff_one using pos by linarith
  then show ?case by (simp only: in_measure)
qed

text \<open>
  \<open>findWaypointAroundIsland(sx, sy, tx, ty, island, pad, state)\<close>. One pass of its retry
  loop is \<open>push_off\<close>: the first other island nearer than its radius plus the pad plus 100
  moves the waypoint to its radius plus the pad plus 150 (\<open>None\<close>: no island blocks).
\<close>

definition push_off :: "island list \<Rightarrow> nat \<Rightarrow> real \<Rightarrow> real \<times> real \<Rightarrow> (real \<times> real) option" where
  "push_off land island pad wp =
     (case find (\<lambda>j. j \<noteq> island \<and>
                     hypot (fst wp - ix (land ! j)) (snd wp - iy (land ! j)) < ir (land ! j) + pad + 100)
             [0..<length land] of
        None \<Rightarrow> None
      | Some j \<Rightarrow>
          (let c = land ! j;
               dx = fst wp - ix c; dy = snd wp - iy c;
               pushAngle = atan2 dy dx
           in Some (ix c + cos pushAngle * (ir c + pad + 150),
                    iy c + sin pushAngle * (ir c + pad + 150))))"

fun push_off_loop :: "island list \<Rightarrow> nat \<Rightarrow> real \<Rightarrow> nat \<Rightarrow> real \<times> real \<Rightarrow> real \<times> real" where
  "push_off_loop land island pad 0 wp = wp"
| "push_off_loop land island pad (Suc n) wp =
     (case push_off land island pad wp of
        None \<Rightarrow> wp
      | Some wp' \<Rightarrow> push_off_loop land island pad n wp')"

definition findWaypointAroundIsland ::
    "config \<Rightarrow> island list \<Rightarrow> real \<Rightarrow> real \<Rightarrow> real \<Rightarrow> real \<Rightarrow> nat \<Rightarrow> real \<Rightarrow> real \<times> real" where
  "findWaypointAroundIsland cfg land sx sy tx ty island pad =
     (let c = land ! island;
          margin = ir c + pad + 200;
          angleToShip = atan2 (sy - iy c) (sx - ix c);
          angleToTarget = atan2 (ty - iy c) (tx - ix c);
          angleDiff = wrap_up (wrap_down (angleToTarget - angleToShip));
          dir = (if sgn angleDiff = 0 then 1 else sgn angleDiff);
          waypointAngle = angleToShip + dir * pi * 0.5;
          wp0 = (ix c + cos waypointAngle * margin, iy c + sin waypointAngle * margin);
          wp = push_off_loop land island pad 6 wp0
      in (clamp (fst wp) 200 (WORLD_w cfg - 200), clamp (snd wp) 200 (WORLD_h cfg - 200)))"

text \<open>
  \<open>avoidLandTarget(ship, tx, ty, state)\<close>, the planner the specification calls
  \<open>avoidObstacle\<close>. Its first loop, \<open>push_target\<close>, moves a blocked target out of the
  island that blocks it, at most 8 times.
\<close>

fun push_target :: "island list \<Rightarrow> real \<Rightarrow> nat \<Rightarrow> real \<times> real \<Rightarrow> real \<times> real" where
  "push_target land pad 0 p = p"
| "push_target land pad (Suc k) p =
     (case inLand (fst p) (snd p) pad land of
        None \<Rightarrow> p
      | Some i \<Rightarrow>
          (let hit = land ! i;
               dx = fst p - ix hit; dy = snd p - iy hit;
               d = (if hypot dx dy = 0 then 1 else hypot dx dy);
               want = ir hit + pad + 80
           in push_target land pad k (ix hit + (dx / d) * want, iy hit + (dy / d) * want)))"

definition planner_pad :: "ship \<Rightarrow> real" where
  "planner_pad s = radius (kind s) + 120"

definition avoidLandTarget :: "config \<Rightarrow> island list \<Rightarrow> ship \<Rightarrow> real \<Rightarrow> real \<Rightarrow> real \<times> real" where
  "avoidLandTarget cfg land s tx ty =
     (let pad = planner_pad s;
          p = push_target land pad 8 (tx, ty);
          frame = (\<lambda>q. (clamp (fst q) 50 (WORLD_w cfg - 50), clamp (snd q) 50 (WORLD_h cfg - 50)))
      in case pathCrossesLand (shipx s) (shipy s) (fst p) (snd p) pad land of
           None \<Rightarrow> frame p
         | Some island \<Rightarrow>
             (let wp = findWaypointAroundIsland cfg land (shipx s) (shipy s) (fst p) (snd p) island pad
              in case pathCrossesLand (shipx s) (shipy s) (fst wp) (snd wp) pad land of
                   None \<Rightarrow> frame wp
                 | Some island2 \<Rightarrow>
                     (if island2 \<noteq> island then
                        frame (findWaypointAroundIsland cfg land (shipx s) (shipy s)
                                 (fst wp) (snd wp) island2 pad)
                      else frame wp)))"

text \<open>
  A point is blocked at a margin when it lies in the padded disc of some island, which
  is when \<open>inLand\<close> finds an island.
\<close>

definition blocked :: "island list \<Rightarrow> real \<Rightarrow> real \<times> real \<Rightarrow> bool" where
  "blocked land margin q = (inLand (fst q) (snd q) margin land \<noteq> None)"

text \<open>
  Two islands, the second close behind the bypass point of the first, and a destroyer
  north of the first island that is ordered to a point south of it.
\<close>

definition twin_islands :: "island list" where
  "twin_islands = [\<lparr>ix = 1000, iy = 1000, ir = 100\<rparr>, \<lparr>ix = 1500, iy = 1000, ir = 100\<rparr>]"

definition northern_ship :: ship where
  "northern_ship = mkShip 0 P kind_DD 1000 1837 0"

text \<open>
  A point is clear of the islands at a margin when, for every island, its squared
  distance to the centre exceeds the square of the radius plus the margin (the negation
  of the test of \<open>inLand\<close>). \<open>in_frame cfg b q\<close> says that \<open>q\<close> lies more than \<open>b\<close> inside the
  world rectangle.
\<close>

definition clear_of :: "island list \<Rightarrow> real \<Rightarrow> real \<times> real \<Rightarrow> bool" where
  "clear_of land margin q =
     list_all (\<lambda>c. (ir c + margin) * (ir c + margin)
                     < (fst q - ix c) * (fst q - ix c) + (snd q - iy c) * (snd q - iy c)) land"

definition in_frame :: "config \<Rightarrow> real \<Rightarrow> real \<times> real \<Rightarrow> bool" where
  "in_frame cfg b q =
     (b < fst q \<and> fst q < WORLD_w cfg - b \<and> b < snd q \<and> snd q < WORLD_h cfg - b)"

section \<open>Global route planner\<close>

text \<open>
  The commander's planner of the AI module. \<open>distanceToNearestLand\<close> starts from
  \<open>Infinity\<close>, which is \<open>None\<close> here, so that every point of a map without islands is safe.
\<close>

definition ESCORT_FORMATION_RADIUS :: real where
  "ESCORT_FORMATION_RADIUS = 500"

definition COMMANDER_LAND_MARGIN :: real where
  "COMMANDER_LAND_MARGIN = 200 + ESCORT_FORMATION_RADIUS"

definition distanceToNearestLand :: "real \<Rightarrow> real \<Rightarrow> island list \<Rightarrow> real option" where
  "distanceToNearestLand x0 y0 land =
     fold (\<lambda>c minDist.
             let dx = x0 - ix c; dy = y0 - iy c;
                 d = hypot dx dy - ir c
             in case minDist of
                  None \<Rightarrow> Some d
                | Some m \<Rightarrow> if d < m then Some d else Some m) land None"

definition isPointSafe :: "real \<Rightarrow> real \<Rightarrow> real \<Rightarrow> island list \<Rightarrow> bool" where
  "isPointSafe x0 y0 margin land =
     (case distanceToNearestLand x0 y0 land of None \<Rightarrow> True | Some m \<Rightarrow> m \<ge> margin)"

text \<open>
  \<open>pushToSafePoint(x, y, margin, state)\<close>: one pass adds up the pushes of all islands that
  are too near (\<open>push_total\<close>); at most 15 passes.
\<close>

definition push_total :: "real \<Rightarrow> real \<Rightarrow> real \<Rightarrow> island list \<Rightarrow> real \<times> real \<times> bool" where
  "push_total px py margin land =
     fold (\<lambda>c (totalPushX, totalPushY, needsPush).
             let dx = px - ix c; dy = py - iy c;
                 d = hypot dx dy;
                 minDist = ir c + margin
             in if d < minDist \<and> d > 0.1 then
                  (let pushStrength = (minDist - d) + 50
                   in (totalPushX + (dx / d) * pushStrength,
                       totalPushY + (dy / d) * pushStrength, True))
                else (totalPushX, totalPushY, needsPush)) land (0, 0, False)"

fun safe_loop :: "real \<Rightarrow> island list \<Rightarrow> nat \<Rightarrow> real \<times> real \<Rightarrow> real \<times> real" where
  "safe_loop margin land 0 p = p"
| "safe_loop margin land (Suc n) p =
     (case push_total (fst p) (snd p) margin land of
        (totalPushX, totalPushY, needsPush) \<Rightarrow>
          if \<not> needsPush then p
          else safe_loop margin land n (fst p + totalPushX, snd p + totalPushY))"

definition pushToSafePoint :: "config \<Rightarrow> island list \<Rightarrow> real \<Rightarrow> real \<Rightarrow> real \<Rightarrow> real \<times> real" where
  "pushToSafePoint cfg land x0 y0 margin =
     (let p = safe_loop margin land 15 (x0, y0)
      in (clamp (fst p) (margin + 100) (WORLD_w cfg - margin - 100),
          clamp (snd p) (margin + 100) (WORLD_h cfg - margin - 100)))"

definition isDirectPathClear :: "real \<Rightarrow> real \<Rightarrow> real \<Rightarrow> real \<Rightarrow> real \<Rightarrow> island list \<Rightarrow> bool" where
  "isDirectPathClear sx sy ex ey margin land =
     (let steps = max 10 \<lceil>hypot (ex - sx) (ey - sy) / 100\<rceil>
      in list_all (\<lambda>i. let t = of_int i / of_int steps;
                           x1 = sx + (ex - sx) * t;
                           y1 = sy + (ey - sy) * t
                       in isPointSafe x1 y1 margin land) [0..steps])"

definition doesPathPassNearIsland :: "real \<Rightarrow> real \<Rightarrow> real \<Rightarrow> real \<Rightarrow> island \<Rightarrow> real \<Rightarrow> bool" where
  "doesPathPassNearIsland sx sy ex ey island margin =
     (let vx = ex - sx; vy = ey - sy;
          vv = vx * vx + vy * vy
      in if vv < 1 then False
         else
           let t = clamp (((ix island - sx) * vx + (iy island - sy) * vy) / vv) 0 1;
               closestX = sx + vx * t;
               closestY = sy + vy * t;
               dist = hypot (closestX - ix island) (closestY - iy island)
           in dist < ir island + margin + 100)"

definition generateCurveAroundIsland ::
    "config \<Rightarrow> island list \<Rightarrow> real \<Rightarrow> real \<Rightarrow> real \<Rightarrow> real \<Rightarrow> island \<Rightarrow> real \<Rightarrow> real \<times> real" where
  "generateCurveAroundIsland cfg land sx sy ex ey island margin =
     (let curveMargin = ir island + margin + 150;
          angleToStart = atan2 (sy - iy island) (sx - ix island);
          angleToEnd = atan2 (ey - iy island) (ex - ix island);
          angleDiff = wrap_up (wrap_down (angleToEnd - angleToStart));
          midAngle = angleToStart + angleDiff * 0.5;
          wpX = ix island + cos midAngle * curveMargin;
          wpY = iy island + sin midAngle * curveMargin
      in pushToSafePoint cfg land wpX wpY margin)"

fun curve_waypoints ::
    "config \<Rightarrow> island list \<Rightarrow> real \<Rightarrow> real \<Rightarrow> real \<Rightarrow> real \<times> real \<Rightarrow> island list \<Rightarrow> (real \<times> real) list" where
  "curve_waypoints cfg land margin ex ey cur [] = []"
| "curve_waypoints cfg land margin ex ey cur (island # rest) =
     (let waypoint = generateCurveAroundIsland cfg land (fst cur) (snd cur) ex ey island margin
      in waypoint # curve_waypoints cfg land margin ex ey waypoint rest)"

definition generateSmoothPath ::
    "config \<Rightarrow> island list \<Rightarrow> real \<Rightarrow> real \<Rightarrow> real \<Rightarrow> real \<Rightarrow> real \<Rightarrow> (real \<times> real) list" where
  "generateSmoothPath cfg land sx sy ex0 ey0 margin =
     (let safeEnd = pushToSafePoint cfg land ex0 ey0 margin;
          ex = fst safeEnd; ey = snd safeEnd
      in if isDirectPathClear sx sy ex ey margin land then [(ex, ey)]
         else
           let blockingIslands = filter (\<lambda>c. doesPathPassNearIsland sx sy ex ey c margin) land
           in if blockingIslands = [] then [(ex, ey)]
              else
                let sorted = sort_key (\<lambda>c. hypot (ix c - sx) (iy c - sy)) blockingIslands
                in curve_waypoints cfg land margin ex ey (sx, sy) sorted @ [(ex, ey)])"

definition planCommanderRoute :: "config \<Rightarrow> island list \<Rightarrow> ship \<Rightarrow> real \<Rightarrow> real \<Rightarrow> (real \<times> real) list" where
  "planCommanderRoute cfg land s targetX targetY =
     (let margin = COMMANDER_LAND_MARGIN;
          safeDest = pushToSafePoint cfg land targetX targetY margin;
          path = generateSmoothPath cfg land (shipx s) (shipy s) (fst safeDest) (snd safeDest) margin
      in map (\<lambda>wp. if isPointSafe (fst wp) (snd wp) (margin * 0.8) land then wp
                    else pushToSafePoint cfg land (fst wp) (snd wp) margin) path)"

text \<open>
  The scenario of the route planner: one island of radius 200 at (500, 1000), and the
  property asked of a route around it.
\<close>

definition round_island :: "island list" where
  "round_island = [\<lparr>ix = 500, iy = 1000, ir = 200\<rparr>]"

definition route_keeps_clear :: "(real \<times> real) list \<Rightarrow> bool" where
  "route_keeps_clear route =
     (2 \<le> length route \<and>
      list_all (\<lambda>q. 200 + COMMANDER_LAND_MARGIN < hypot (fst q - 500) (snd q - 1000)) route)"

definition flagship :: ship where
  "flagship = (mkShip 0 P kind_BB 500 500 (pi / 2))\<lparr>isCommander := True\<rparr>"

text \<open>
  The angle at which the scenario's route passes the island: half-way between the
  direction to the start, \<open>-pi/2\<close>, and the direction \<open>arctan (19/6)\<close> to the destination.
\<close>

definition bisector :: real where
  "bisector = - (pi / 2) + (arctan (19 / 6) + pi / 2) * 0.5"

section \<open>Proofs: commander election\<close>

lemma alive_positions_iff: "c \<in> set (alive_positions arr) \<longleftrightarrow> c < length arr \<and> alive (arr ! c)"
  by (auto simp: alive_positions_def)

lemma alive_positions_nonempty: "(\<exists>s \<in> set arr. alive s) \<longleftrightarrow> alive_positions arr \<noteq> []"
proof
  assume "\<exists>s \<in> set arr. alive s"
  then obtain i where "i < length arr" "alive (arr ! i)" by (auto simp: in_set_conv_nth)
  then have "i \<in> set (alive_positions arr)" by (simp add: alive_positions_iff)
  then show "alive_positions arr \<noteq> []" by auto
next
  assume "alive_positions arr \<noteq> []"
  then obtain i where "i \<in> set (alive_positions arr)" by (cases "alive_positions arr") auto
  then have "i < length arr" "alive (arr ! i)" by (auto simp: alive_positions_iff)
  then show "\<exists>s \<in> set arr. alive s" using nth_mem by blast
qed

lemma find_SomeD: "find Q xs = Some c \<Longrightarrow> c \<in> set xs \<and> Q c"
  by (induction xs) (auto split: if_splits)

lemma pick_by_priority_mem:
  "pick_by_priority arr al ts = Some c \<Longrightarrow> c \<in> set al \<and> ktype (kind (arr ! c)) \<in> set ts"
  by (induction ts) (auto split: option.splits dest: find_SomeD)

lemma pick_by_priority_None:
  "pick_by_priority arr al ts = None \<longleftrightarrow> (\<forall>i \<in> set al. ktype (kind (arr ! i)) \<notin> set ts)"
  by (induction ts) (auto split: option.splits simp: find_None_iff dest: find_SomeD)

lemma set_priority: "set priority = UNIV"
proof -
  have "t \<in> set priority" for t by (cases t) (simp_all add: priority_def)
  then show ?thesis by auto
qed

lemma pick_by_priority_total:
  "al \<noteq> [] \<Longrightarrow> \<exists>c. pick_by_priority arr al priority = Some c"
proof -
  assume "al \<noteq> []"
  then obtain i where "i \<in> set al" by (cases al) auto
  then have "pick_by_priority arr al priority \<noteq> None"
    by (auto simp: pick_by_priority_None set_priority)
  then show ?thesis by auto
qed

lemma election_keeps:
  assumes "find (\<lambda>i. isCommander (arr ! i)) (alive_positions arr) = Some c"
  shows "pickCapitalLeader arr = (Some c, arr)"
  using assms by (auto simp: pickCapitalLeader_def Let_def)

lemma election_new:
  assumes "alive_positions arr \<noteq> []"
      and "find (\<lambda>i. isCommander (arr ! i)) (alive_positions arr) = None"
  shows "\<exists>c. pick_by_priority arr (alive_positions arr) priority = Some c \<and>
     pickCapitalLeader arr =
       (Some c, (map (\<lambda>s. s\<lparr>isCommander := False\<rparr>) arr)
          [c := (arr ! c)\<lparr>isCommander := True, plannedPath := [], routeState := Patrol\<rparr>])"
proof -
  obtain c where c: "pick_by_priority arr (alive_positions arr) priority = Some c"
    using pick_by_priority_total [OF assms(1)] by blast
  then show ?thesis using assms by (auto simp: pickCapitalLeader_def Let_def)
qed

lemma elected_roster_flags:
  assumes "c < length arr"
  shows "j < length arr \<Longrightarrow>
     isCommander (((map (\<lambda>s. s\<lparr>isCommander := False\<rparr>) arr)
          [c := (arr ! c)\<lparr>isCommander := True, plannedPath := [], routeState := Patrol\<rparr>]) ! j) \<longleftrightarrow> j = c"
  using assms by (auto simp: nth_list_update)

lemma election_exactly_one:
  assumes inv: "at_most_one_flag arr" and ne: "alive_positions arr \<noteq> []"
  shows "election_post (pickCapitalLeader arr)"
proof (cases "find (\<lambda>i. isCommander (arr ! i)) (alive_positions arr)")
  case (Some c)
  then have c: "c \<in> set (alive_positions arr)" "isCommander (arr ! c)"
    by (auto simp: find_Some_iff)
  then have "c < length arr" "alive (arr ! c)" by (auto simp: alive_positions_iff)
  moreover have "\<forall>j < length arr. isCommander (arr ! j) \<longleftrightarrow> j = c"
    using inv c \<open>c < length arr\<close> by (auto simp: at_most_one_flag_def)
  ultimately show ?thesis
    by (simp add: election_keeps [OF Some] election_post_def)
next
  case None
  from election_new [OF ne None] obtain c where
    c: "pick_by_priority arr (alive_positions arr) priority = Some c" and
    r: "pickCapitalLeader arr =
       (Some c, (map (\<lambda>s. s\<lparr>isCommander := False\<rparr>) arr)
          [c := (arr ! c)\<lparr>isCommander := True, plannedPath := [], routeState := Patrol\<rparr>])"
    by blast
  from c have "c \<in> set (alive_positions arr)" using pick_by_priority_mem by blast
  then have "c < length arr" "alive (arr ! c)" by (auto simp: alive_positions_iff)
  then show ?thesis
    by (simp add: r election_post_def elected_roster_flags)
qed

lemma election_post_at_most_one:
  "election_post (pickCapitalLeader arr) \<Longrightarrow> at_most_one_flag (snd (pickCapitalLeader arr))"
  by (cases "pickCapitalLeader arr") (auto simp: election_post_def at_most_one_flag_def split: option.splits)

lemma election_no_living:
  "alive_positions arr = [] \<Longrightarrow> pickCapitalLeader arr = (None, arr)"
  by (simp add: pickCapitalLeader_def)

lemma election_preserves:
  "at_most_one_flag arr \<Longrightarrow> at_most_one_flag (snd (pickCapitalLeader arr))"
  by (cases "alive_positions arr = []")
     (auto simp: election_no_living intro: election_post_at_most_one election_exactly_one)

lemma setFormation_at_most_one:
  assumes "\<forall>s \<in> set arr. \<not> isCommander s"
  shows "at_most_one_flag (setFormation arr)"
proof (cases "formation_commander arr")
  case None
  then show ?thesis using assms by (auto simp: setFormation_def at_most_one_flag_def)
next
  case (Some c)
  have "i = c" if "i < length arr" "isCommander (arr[c := v] ! i)" for i v
    using assms that by (cases "i = c") auto
  then show ?thesis
    using Some by (auto simp: setFormation_def at_most_one_flag_def)
qed

lemma ticked_at_most_one:
  assumes "at_most_one_flag arr" "map isCommander arr' = map isCommander arr"
  shows "at_most_one_flag arr'"
proof -
  have len: "length arr' = length arr" using assms(2) by (metis length_map)
  have "isCommander (arr' ! i) = isCommander (arr ! i)" if "i < length arr" for i
    using assms(2) that len by (metis nth_map)
  then show ?thesis using assms(1) len by (auto simp: at_most_one_flag_def)
qed

lemma game_roster_at_most_one: "game_roster arr \<Longrightarrow> at_most_one_flag arr"
  by (induction rule: game_roster.induct)
     (auto intro: setFormation_at_most_one election_preserves ticked_at_most_one)

text \<open>
  Claim C2. In every roster the game can produce that holds at least one living vessel,
  a call of \<open>pickCapitalLeader\<close> returns a living vessel, and afterwards that vessel
  is the one and only vessel of the roster whose \<open>isCommander\<close> flag is set.
\<close>

theorem election_exactly_one_commander:
  assumes "game_roster arr" and "\<exists>s \<in> set arr. alive s"
  shows "election_post (pickCapitalLeader arr)"
  using assms election_exactly_one game_roster_at_most_one alive_positions_nonempty by blast


theorem election_exactly_one_commander_witness:
  "game_roster demo_fleet_sunk \<and> (\<exists>s \<in> set demo_fleet_sunk. alive s) \<and>
   election_post (pickCapitalLeader demo_fleet_sunk)"
proof -
  have "\<forall>s \<in> set demo_fleet. \<not> isCommander s"
    by (simp add: demo_fleet_def mkShip_def)
  then have "game_roster (setFormation demo_fleet)" by (rule game_roster.spawned)
  moreover have "map isCommander demo_fleet_sunk = map isCommander (setFormation demo_fleet)"
    by (simp add: demo_fleet_def demo_fleet_sunk_def mkShip_def setFormation_def
        formation_commander_def first_of_class_def kind_BB_def kind_DD_def)
  ultimately have g: "game_roster demo_fleet_sunk" by (rule game_roster.ticked)
  have a: "\<exists>s \<in> set demo_fleet_sunk. alive s"
    by (simp add: demo_fleet_sunk_def mkShip_def)
  from g a election_exactly_one_commander [OF g a] show ?thesis by simp
qed

lemma pick_by_priority_rank:
  assumes "pick_by_priority arr al priority = Some c" and "i \<in> set al"
  shows "class_rank (ktype (kind (arr ! c))) \<le> class_rank (ktype (kind (arr ! i)))"
proof -
  have "class_rank (ktype (kind (arr ! c))) \<le> class_rank t"
    if "ktype (kind (arr ! i)) = t" for t
    using assms that
    by (cases t)
       (auto simp: priority_def class_rank_def find_None_iff
             split: option.splits ship_class.splits dest: find_SomeD)
  then show ?thesis by simp
qed

text \<open>
  Claim C3. When no living vessel carries the commander flag and some vessel is alive,
  the election returns a living vessel whose class has the highest priority, in the
  order BB > CV > DD > TB, among the classes of the living vessels, and sets its flag.
\<close>

theorem succession_by_class_priority:
  assumes dead: "\<not> (\<exists>s \<in> set arr. alive s \<and> isCommander s)"
      and live: "\<exists>s \<in> set arr. alive s"
  shows "succession_post arr (pickCapitalLeader arr)"
proof -
  have ne: "alive_positions arr \<noteq> []" using live by (simp add: alive_positions_nonempty)
  have "\<not> isCommander (arr ! i)" if "i \<in> set (alive_positions arr)" for i
    using dead that by (auto simp: alive_positions_iff)
  then have none: "find (\<lambda>i. isCommander (arr ! i)) (alive_positions arr) = None"
    by (simp add: find_None_iff)
  from election_new [OF ne none] obtain c where
    c: "pick_by_priority arr (alive_positions arr) priority = Some c" and
    r: "pickCapitalLeader arr =
       (Some c, (map (\<lambda>s. s\<lparr>isCommander := False\<rparr>) arr)
          [c := (arr ! c)\<lparr>isCommander := True, plannedPath := [], routeState := Patrol\<rparr>])"
    by blast
  from c have "c \<in> set (alive_positions arr)" using pick_by_priority_mem by blast
  then have cl: "c < length arr" "alive (arr ! c)" by (auto simp: alive_positions_iff)
  have "class_rank (ktype (kind (arr ! c))) \<le> class_rank (ktype (kind (arr ! i)))"
    if "i < length arr" "alive (arr ! i)" for i
    using pick_by_priority_rank [OF c] that by (simp add: alive_positions_iff)
  then show ?thesis using cl by (simp add: r succession_post_def)
qed

theorem succession_by_class_priority_witness:
  "\<not> (\<exists>s \<in> set mixed_fleet_sunk. alive s \<and> isCommander s) \<and>
   (\<exists>s \<in> set mixed_fleet_sunk. alive s) \<and>
   succession_post mixed_fleet_sunk (pickCapitalLeader mixed_fleet_sunk) \<and>
   fst (pickCapitalLeader mixed_fleet_sunk) = Some 3 \<and>
   map (\<lambda>s. ktype (kind s)) (filter alive mixed_fleet_sunk) = [TB, DD, CV, DD] \<and>
   ktype (kind (mixed_fleet_sunk ! 3)) = CV \<and>
   map isCommander (snd (pickCapitalLeader mixed_fleet_sunk)) = [False, False, False, True, False]"
proof -
  have d: "\<not> (\<exists>s \<in> set mixed_fleet_sunk. alive s \<and> isCommander s)"
    by (simp add: mixed_fleet_sunk_def mkShip_def)
  have a: "\<exists>s \<in> set mixed_fleet_sunk. alive s"
    by (simp add: mixed_fleet_sunk_def mkShip_def)
  have e: "pickCapitalLeader mixed_fleet_sunk =
     (Some 3, (map (\<lambda>s. s\<lparr>isCommander := False\<rparr>) mixed_fleet_sunk)
        [3 := (mixed_fleet_sunk ! 3)\<lparr>isCommander := True, plannedPath := [], routeState := Patrol\<rparr>])"
    by (simp add: pickCapitalLeader_def alive_positions_def priority_def mixed_fleet_sunk_def
          mkShip_def kind_BB_def kind_TB_def kind_DD_def kind_CV_def upt_rec Let_def)
  have k: "map (\<lambda>s. ktype (kind s)) (filter alive mixed_fleet_sunk) = [TB, DD, CV, DD] \<and>
     ktype (kind (mixed_fleet_sunk ! 3)) = CV"
    by (simp add: mixed_fleet_sunk_def mkShip_def kind_BB_def kind_TB_def kind_DD_def kind_CV_def)
  have f: "map isCommander (snd (pickCapitalLeader mixed_fleet_sunk)) = [False, False, False, True, False]"
    unfolding e by (simp add: mixed_fleet_sunk_def mkShip_def)
  from d a k f succession_by_class_priority [OF d a] show ?thesis by (simp add: e)
qed

section \<open>Proofs: escort lock state machine\<close>

lemma lock_run_snoc:
  "lock_run R e (ticks @ [tick]) = fst (lock_update R (fst tick) (snd tick) (lock_run R e ticks))"
  by (induction ticks arbitrary: e) simp_all

lemma trailing_dwell_snoc:
  "trailing_dwell R (ticks @ [tick]) =
     (if fst tick \<le> R then trailing_dwell R ticks @ [tick] else [])"
  by (simp add: trailing_dwell_def)

lemma trailing_dwell_suffix: "\<exists>before. ticks = before @ trailing_dwell R ticks"
proof -
  have "rev ticks = takeWhile (\<lambda>tick. fst tick \<le> R) (rev ticks) @ dropWhile (\<lambda>tick. fst tick \<le> R) (rev ticks)"
    by simp
  then have "ticks = rev (dropWhile (\<lambda>tick. fst tick \<le> R) (rev ticks)) @ trailing_dwell R ticks"
    unfolding trailing_dwell_def by (metis rev_append rev_rev_ident)
  then show ?thesis by blast
qed

lemma trailing_dwell_within: "list_all (\<lambda>tick. fst tick \<le> R) (trailing_dwell R ticks)"
  unfolding trailing_dwell_def list_all_iff by (auto dest: set_takeWhileD)

lemma unlocked_timer:
  assumes "0 \<le> R"
  shows "\<not> is_locked (lock_run R fresh_escort ticks) \<Longrightarrow>
     timer (lock_run R fresh_escort ticks) = sum_list (map snd (trailing_dwell R ticks))"
proof (induction ticks rule: rev_induct)
  case Nil
  then show ?case by (simp add: fresh_escort_def timer_def trailing_dwell_def)
next
  case (snoc tick ticks)
  let ?e = "lock_run R fresh_escort ticks"
  show ?case
  proof (cases "is_locked ?e")
    case True
    with snoc.prems assms show ?thesis
      by (auto simp: lock_run_snoc trailing_dwell_snoc lock_update_def Let_def is_locked_def timer_def
               split: option.splits if_splits)
  next
    case False
    with snoc.IH have "timer ?e = sum_list (map snd (trailing_dwell R ticks))" by simp
    with snoc.prems False show ?thesis
      by (auto simp: lock_run_snoc trailing_dwell_snoc lock_update_def Let_def is_locked_def timer_def
               split: option.splits if_splits)
  qed
qed

lemma lock_needs_dwell:
  assumes "0 \<le> R"
      and "\<not> is_locked (lock_run R fresh_escort history)"
      and "is_locked (fst (lock_update R d dt (lock_run R fresh_escort history)))"
  shows "d \<le> R \<and> dwell_block R (history @ [(d, dt)]) (trailing_dwell R (history @ [(d, dt)]))"
proof -
  let ?e = "lock_run R fresh_escort history"
  have t: "timer ?e = sum_list (map snd (trailing_dwell R history))"
    using unlocked_timer [OF assms(1) assms(2)] .
  have inr: "d \<le> R" and two: "2 \<le> timer ?e + dt"
    using assms(2,3)
    by (auto simp: lock_update_def Let_def is_locked_def timer_def split: option.splits if_splits)
  have "2 \<le> sum_list (map snd (trailing_dwell R (history @ [(d, dt)])))"
    using inr two t by (simp add: trailing_dwell_snoc)
  moreover have "trailing_dwell R (history @ [(d, dt)]) \<noteq> []"
    using inr by (simp add: trailing_dwell_snoc)
  ultimately show ?thesis
    using inr trailing_dwell_suffix [of "history @ [(d, dt)]" R] trailing_dwell_within [of R "history @ [(d, dt)]"]
    unfolding dwell_block_def by blast
qed

lemma unlock_needs_far:
  "is_locked e \<Longrightarrow> \<not> is_locked (fst (lock_update R d dt e)) \<Longrightarrow> d > R * 3"
  by (auto simp: lock_update_def Let_def is_locked_def split: option.splits if_splits)

lemma lock_events:
  "\<not> (Locks \<in> set (snd (lock_update R d dt e)) \<and> Unlocks \<in> set (snd (lock_update R d dt e)))"
  "Locks \<in> set (snd (lock_update R d dt e)) \<longleftrightarrow> \<not> is_locked e \<and> is_locked (fst (lock_update R d dt e))"
  "Unlocks \<in> set (snd (lock_update R d dt e)) \<longleftrightarrow> is_locked e \<and> \<not> is_locked (fst (lock_update R d dt e))"
  by (auto simp: lock_update_def Let_def is_locked_def split: option.splits if_splits)

text \<open>
  Claim C4. With a lock radius that is not negative, after any history of ticks of a new
  escort: a tick that locks the escort is within the lock radius and ends a block of
  consecutive ticks within the lock radius whose time steps sum to at least 2.0; a tick
  that unlocks it has a slot distance above three times the lock radius; and no tick
  both locks and unlocks.
\<close>

theorem escort_lock_hysteresis:
  assumes "0 \<le> lockRadius"
  shows "lock_hysteresis lockRadius history dForm dt"
  unfolding lock_hysteresis_def Let_def
  using lock_needs_dwell [OF assms, of history dForm dt]
        unlock_needs_far [of "lock_run lockRadius fresh_escort history" lockRadius dForm dt]
        lock_events [of lockRadius dForm dt "lock_run lockRadius fresh_escort history"] assms
  by (intro conjI impI) (blast, blast, blast, simp, blast, blast, blast)

theorem escort_lock_hysteresis_witness:
  "(0::real) \<le> 60 \<and> lock_hysteresis 60 [(10, 1), (20, 0.5)] 30 0.5 \<and>
   \<not> is_locked (lock_run 60 fresh_escort [(10, 1), (20, 0.5)]) \<and>
   is_locked (fst (lock_update 60 30 0.5 (lock_run 60 fresh_escort [(10, 1), (20, 0.5)])))"
proof -
  have h: "(0::real) \<le> 60" by simp
  have "\<not> is_locked (lock_run 60 fresh_escort [(10, 1), (20, 0.5)])"
    by (simp add: lock_update_def fresh_escort_def is_locked_def Let_def)
  moreover have "is_locked (fst (lock_update 60 30 0.5 (lock_run 60 fresh_escort [(10, 1), (20, 0.5)])))"
    by (simp add: lock_update_def fresh_escort_def is_locked_def Let_def)
  ultimately show ?thesis
    using h escort_lock_hysteresis [OF h, of "[(10, 1), (20, 0.5)]" 30 "0.5"] by simp
qed


section \<open>Proofs: collision predictor and avoidance steering\<close>

lemma avoid_threat_skips: "\<not> same_side ship other \<Longrightarrow> avoid_threat ship other = None"
  by (auto simp: avoid_threat_def same_side_def)

lemma avoid_loop_filter:
  "avoid_loop ship (filter (same_side ship) roster) acc = avoid_loop ship roster acc"
  by (induction roster arbitrary: acc) (auto simp: avoid_threat_skips split: option.splits)

lemma collect_collisions_filter:
  "collect_collisions ship (filter (same_side ship) roster) la = collect_collisions ship roster la"
  by (induction roster) (auto simp: same_side_def split: option.splits)

text \<open>
  Claim C10. Two rosters with the same sequence of living vessels of the ship's own team
  give the same result of \<open>calculateAvoidanceSteering\<close> (bias, throttle term and alert)
  and of \<open>checkAllCollisions\<close>: vessels of the other team, wherever they are and
  however they move, do not enter either.
\<close>

theorem avoidance_ignores_enemies:
  assumes "filter (same_side ship) rosterA = filter (same_side ship) rosterB"
  shows "calculateAvoidanceSteering ship rosterA = calculateAvoidanceSteering ship rosterB \<and>
         checkAllCollisions ship rosterA lookAhead = checkAllCollisions ship rosterB lookAhead"
proof -
  have "avoid_loop ship rosterA (0, None) = avoid_loop ship rosterB (0, None)"
    using assms avoid_loop_filter by metis
  moreover have "collect_collisions ship rosterA lookAhead = collect_collisions ship rosterB lookAhead"
    using assms collect_collisions_filter by metis
  ultimately show ?thesis
    by (simp add: calculateAvoidanceSteering_def checkAllCollisions_def)
qed

theorem avoidance_ignores_enemies_witness:
  "filter (same_side closing_a) [closing_a, raider, closing_b] =
     filter (same_side closing_a) [closing_a, closing_b, raider\<lparr>shipx := 1010, shipvy := 20\<rparr>] \<and>
   calculateAvoidanceSteering closing_a [closing_a, raider, closing_b] =
     calculateAvoidanceSteering closing_a [closing_a, closing_b, raider\<lparr>shipx := 1010, shipvy := 20\<rparr>] \<and>
   checkAllCollisions closing_a [closing_a, raider, closing_b] 6 =
     checkAllCollisions closing_a [closing_a, closing_b, raider\<lparr>shipx := 1010, shipvy := 20\<rparr>] 6"
proof -
  have f: "filter (same_side closing_a) [closing_a, raider, closing_b] =
     filter (same_side closing_a) [closing_a, closing_b, raider\<lparr>shipx := 1010, shipvy := 20\<rparr>]"
    by (simp add: same_side_def closing_a_def closing_b_def raider_def mkShip_def)
  from f avoidance_ignores_enemies [OF f, of 6] show ?thesis by simp
qed

lemma hypot_zero_right: "hypot a 0 = \<bar>a\<bar>"
  by (simp add: hypot_def)

lemma hypot_zero_left: "hypot 0 b = \<bar>b\<bar>"
  by (simp add: hypot_def)

lemma clamp_bounds: "lo \<le> hi \<Longrightarrow> lo \<le> clamp v lo hi \<and> clamp v lo hi \<le> hi"
  by (auto simp: clamp_def)

lemma clamp_inside: "lo \<le> v \<Longrightarrow> v \<le> hi \<Longrightarrow> clamp v lo hi = v"
  by (auto simp: clamp_def)

lemma steer_direction_unit: "steer_direction ship other = 1 \<or> steer_direction ship other = - 1"
  by (auto simp: steer_direction_def Let_def)

declare predict_samples.simps [simp del] avoid_samples.simps [simp del]

lemma closing_prediction:
  "predictCollision closing_a closing_b 6 =
     Some \<lparr>willCollide = True, timeToCollision = 5, otherShip = 1, urgency = 0.2,
           pdx = 300, pdy = 0, currentDist = 300, futureDist = Some 0\<rparr>"
  by (simp add: predictCollision_def closing_a_def closing_b_def mkShip_def kind_DD_def
      separation_at_def hypot_zero_right clamp_def Let_def predict_samples.simps)

lemma closing_steer_a: "steer (calculateAvoidanceSteering closing_a [closing_a, closing_b]) = 0"
  by (simp add: calculateAvoidanceSteering_def avoid_threat_def closing_a_def closing_b_def mkShip_def
      hypot_zero_right clamp_def Let_def)

lemma closing_steer_b: "steer (calculateAvoidanceSteering closing_b [closing_a, closing_b]) = 0"
  by (simp add: calculateAvoidanceSteering_def avoid_threat_def closing_a_def closing_b_def mkShip_def
      hypot_zero_right clamp_def Let_def)

lemma hypot_scaled_unit:
  assumes "ux * ux + uy * uy = 1"
  shows "hypot (k * ux) (k * uy) = \<bar>k\<bar>"
proof -
  have "(k * ux) * (k * ux) + (k * uy) * (k * uy) = (k * k) * (ux * ux + uy * uy)"
    by (simp add: algebra_simps)
  then have "hypot (k * ux) (k * uy) = sqrt (k * k)"
    by (simp add: hypot_def assms)
  then show ?thesis by simp
qed

lemma head_on_separation:
  assumes "head_on ship other ux uy"
  shows "separation_at ship other t = \<bar>100 - 20 * t\<bar>"
proof -
  have u: "ux * ux + uy * uy = 1" using assms by (simp add: head_on_def)
  have "shipx other + shipvx other * t - (shipx ship + shipvx ship * t) = (100 - 20 * t) * ux"
       "shipy other + shipvy other * t - (shipy ship + shipvy ship * t) = (100 - 20 * t) * uy"
    using assms by (simp_all add: head_on_def algebra_simps)
  then show ?thesis
    by (simp add: separation_at_def Let_def hypot_scaled_unit [OF u])
qed

lemma head_on_samples:
  assumes "head_on ship other ux uy"
  shows "predict_samples ship other 6 0.5 (100, 0) = (0, 5)"
  by (simp add: predict_samples.simps head_on_separation [OF assms])

lemma head_on_current:
  assumes "head_on ship other ux uy"
  shows "hypot (shipx other - shipx ship) (shipy other - shipy ship) = 100"
  using assms hypot_scaled_unit [of ux uy 100] by (simp add: head_on_def)

lemma head_on_relative:
  assumes "head_on ship other ux uy"
  shows "hypot (shipvx ship - shipvx other) (shipvy ship - shipvy other) = 20"
    and "(shipx other - shipx ship) * (shipvx ship - shipvx other) +
         (shipy other - shipy ship) * (shipvy ship - shipvy other) = 2000"
proof -
  have u: "ux * ux + uy * uy = 1" using assms by (simp add: head_on_def)
  have "shipvx ship - shipvx other = 20 * ux" "shipvy ship - shipvy other = 20 * uy"
    using assms by (simp_all add: head_on_def)
  then show "hypot (shipvx ship - shipvx other) (shipvy ship - shipvy other) = 20"
    using hypot_scaled_unit [OF u, of 20] by simp
  have "(shipx other - shipx ship) * (shipvx ship - shipvx other) +
         (shipy other - shipy ship) * (shipvy ship - shipvy other) = 2000 * (ux * ux + uy * uy)"
    using assms by (simp add: head_on_def algebra_simps)
  then show "(shipx other - shipx ship) * (shipvx ship - shipvx other) +
         (shipy other - shipy ship) * (shipvy ship - shipvy other) = 2000"
    by (simp add: u)
qed

theorem head_on_small_hulls:
  assumes h: "head_on ship other ux uy"
      and r: "0 \<le> radius (kind ship)" "0 \<le> radius (kind other)"
             "radius (kind ship) + radius (kind other) \<le> 30"
  shows "predictCollision ship other 6 =
     Some \<lparr>willCollide = True, timeToCollision = 5, otherShip = ref other, urgency = 0.2,
           pdx = 100 * ux, pdy = 100 * uy, currentDist = 100, futureDist = Some 0\<rparr>"
proof -
  have a: "alive ship" "alive other" "ref ship \<noteq> ref other"
    and d: "shipx other - shipx ship = 100 * ux" "shipy other - shipy ship = 100 * uy"
    using h by (simp_all add: head_on_def)
  show ?thesis
    unfolding predictCollision_def Let_def
    using a r head_on_current [OF h] head_on_samples [OF h] head_on_relative [OF h] d
    by (simp add: clamp_def)
qed

theorem head_on_large_hulls:
  assumes h: "head_on ship other ux uy"
      and r: "30 < radius (kind ship) + radius (kind other)"
  shows "predictCollision ship other 6 =
     Some \<lparr>willCollide = True, timeToCollision = 0, otherShip = ref other, urgency = 1,
           pdx = 100 * ux, pdy = 100 * uy, currentDist = 100, futureDist = None\<rparr>"
proof -
  have a: "alive ship" "alive other" "ref ship \<noteq> ref other"
    and d: "shipx other - shipx ship = 100 * ux" "shipy other - shipy ship = 100 * uy"
    using h by (simp_all add: head_on_def)
  show ?thesis
    unfolding predictCollision_def Let_def
    using a r head_on_current [OF h] d
    by simp
qed

text \<open>
  Claim C6, as amended. For two living ships on exactly opposite courses, 100 units apart
  and each moving at speed 10 straight towards the other, \<open>predictCollision\<close> with the
  lookahead 6 reports a collision at the current separation 100. When the hull radii sum
  to at most 30 the predicted time to closest approach is 5 and the urgency 0.2; for
  larger hulls the pair is already inside the emergency band and the time is 0 with
  urgency 1.
\<close>

theorem head_on_prediction:
  assumes h: "head_on ship other ux uy"
      and r: "0 \<le> radius (kind ship)" "0 \<le> radius (kind other)"
  shows "\<exists>p. predictCollision ship other 6 = Some p \<and> willCollide p \<and> currentDist p = 100 \<and>
           timeToCollision p = (if radius (kind ship) + radius (kind other) \<le> 30 then 5 else 0) \<and>
           urgency p = (if radius (kind ship) + radius (kind other) \<le> 30 then 0.2 else 1)"
proof (cases "radius (kind ship) + radius (kind other) \<le> 30")
  case True
  then show ?thesis using head_on_small_hulls [OF h r True] by simp
next
  case False
  then have "30 < radius (kind ship) + radius (kind other)" by simp
  from head_on_large_hulls [OF h this] False show ?thesis by simp
qed

lemma head_on_demo: "head_on (eastbound k) (westbound k) 1 0"
  by (simp add: head_on_def eastbound_def westbound_def mkShip_def)

theorem head_on_prediction_witness:
  "head_on (eastbound kind_DD) (westbound kind_DD) 1 0 \<and>
   0 \<le> radius (kind (eastbound kind_DD)) \<and> 0 \<le> radius (kind (westbound kind_DD)) \<and>
   (\<exists>p. predictCollision (eastbound kind_DD) (westbound kind_DD) 6 = Some p \<and> willCollide p \<and>
        currentDist p = 100 \<and> timeToCollision p = 5 \<and> urgency p = 0.2)"
proof -
  have h: "head_on (eastbound kind_DD) (westbound kind_DD) 1 0" by (rule head_on_demo)
  have r: "0 \<le> radius (kind (eastbound kind_DD))" "0 \<le> radius (kind (westbound kind_DD))"
    by (simp_all add: eastbound_def westbound_def mkShip_def kind_DD_def)
  have s: "radius (kind (eastbound kind_DD)) + radius (kind (westbound kind_DD)) \<le> 30"
    by (simp add: eastbound_def westbound_def mkShip_def kind_DD_def)
  from head_on_prediction [OF h r] s h r show ?thesis by simp
qed

theorem head_on_battleships_time_zero:
  "head_on (eastbound kind_BB) (westbound kind_BB) 1 0 \<and>
   (\<exists>p. predictCollision (eastbound kind_BB) (westbound kind_BB) 6 = Some p \<and>
        timeToCollision p = 0 \<and> urgency p = 1)"
proof -
  have r: "30 < radius (kind (eastbound kind_BB)) + radius (kind (westbound kind_BB))"
    by (simp add: eastbound_def westbound_def mkShip_def kind_BB_def)
  from head_on_large_hulls [OF head_on_demo r] head_on_demo show ?thesis by simp
qed

lemma atan2_up: "0 < b \<Longrightarrow> atan2 b 0 = pi / 2"
  by (simp add: atan2_def)

lemma atan2_down: "b < 0 \<Longrightarrow> atan2 b 0 = - (pi / 2)"
  by (simp add: atan2_def)

lemma normAngle_quarter: "normAngle (pi / 2) = pi / 2" "normAngle (- (pi / 2)) = - (pi / 2)"
proof -
  have c: "\<lceil>- (1 / 4 :: real)\<rceil> = 0" by linarith
  have n: "\<not> pi < - (pi / 2)" using pi_gt_zero by linarith
  show "normAngle (pi / 2) = pi / 2" "normAngle (- (pi / 2)) = - (pi / 2)"
    using pi_gt_zero by (simp_all add: normAngle_def js_rem_def TAU_def Let_def c n)
qed

lemma berthed_prediction:
  "predictCollision berthed_a berthed_b 6 =
     Some \<lparr>willCollide = True, timeToCollision = 0, otherShip = 1, urgency = 1,
           pdx = 95, pdy = 0, currentDist = 95, futureDist = None\<rparr>"
  by (simp add: predictCollision_def berthed_a_def berthed_b_def mkShip_def kind_DD_def
      hypot_zero_right Let_def)

lemma berthed_steer_a: "steer (calculateAvoidanceSteering berthed_a [berthed_a, berthed_b]) = 0"
  by (simp add: calculateAvoidanceSteering_def avoid_threat_def in_danger_def berthed_a_def
      berthed_b_def mkShip_def kind_DD_def separation_at_def hypot_zero_right clamp_def Let_def
      avoid_samples.simps)

lemma berthed_steer_b: "steer (calculateAvoidanceSteering berthed_b [berthed_a, berthed_b]) = 0"
  by (simp add: calculateAvoidanceSteering_def avoid_threat_def in_danger_def berthed_a_def
      berthed_b_def mkShip_def kind_DD_def separation_at_def hypot_zero_right clamp_def Let_def
      avoid_samples.simps)

lemma beam_prediction:
  "predictCollision centre_ship beam_plus 6 =
     Some \<lparr>willCollide = True, timeToCollision = 0, otherShip = 1, urgency = 1,
           pdx = 0, pdy = 50, currentDist = 50, futureDist = None\<rparr>"
  "predictCollision centre_ship beam_minus 6 =
     Some \<lparr>willCollide = True, timeToCollision = 0, otherShip = 2, urgency = 1,
           pdx = 0, pdy = - 50, currentDist = 50, futureDist = None\<rparr>"
  by (simp_all add: predictCollision_def centre_ship_def beam_plus_def beam_minus_def mkShip_def
      kind_DD_def hypot_zero_left Let_def)

lemma beam_samples:
  "avoid_samples centre_ship beam_plus 0.3 (50, 0) = (50, 0)"
  "avoid_samples centre_ship beam_minus 0.3 (50, 0) = (50, 0)"
  "avoid_samples centre_ship beam_far 0.3 (90, 0) = (90, 0)"
  by (simp_all add: centre_ship_def beam_plus_def beam_minus_def beam_far_def mkShip_def
      separation_at_def hypot_zero_left Let_def avoid_samples.simps)

lemma beam_danger:
  "in_danger centre_ship beam_plus" "in_danger centre_ship beam_minus" "in_danger centre_ship beam_far"
  by (simp_all add: in_danger_def Let_def centre_ship_def beam_plus_def beam_minus_def beam_far_def
      mkShip_def kind_DD_def hypot_zero_left)

lemma beam_direction:
  "steer_direction centre_ship beam_plus = - 1"
  "steer_direction centre_ship beam_minus = 1"
  "steer_direction centre_ship beam_far = - 1"
  using pi_gt_zero
  by (simp_all add: steer_direction_def atan2_neg_def Let_def centre_ship_def beam_plus_def
      beam_minus_def beam_far_def mkShip_def atan2_up atan2_down normAngle_quarter)

lemma beam_threats:
  "\<exists>al. avoid_threat centre_ship beam_plus = Some (- 0.35, al)"
  "\<exists>al. avoid_threat centre_ship beam_minus = Some (0.35, al)"
  "\<exists>al. avoid_threat centre_ship beam_far = Some (- 0.105, al)"
  "avoid_threat centre_ship centre_ship = None"
  "avoid_threat centre_ship raider = None"
  "avoid_threat centre_ship closing_b = None"
proof -
  have f: "shipx centre_ship = 1000" "shipy centre_ship = 1000" "radius (kind centre_ship) = 14"
    "shipx beam_plus = 1000" "shipy beam_plus = 1050" "radius (kind beam_plus) = 14"
    "shipx beam_minus = 1000" "shipy beam_minus = 950" "radius (kind beam_minus) = 14"
    "shipx beam_far = 1000" "shipy beam_far = 1090" "radius (kind beam_far) = 14"
    "alive beam_plus" "alive beam_minus" "alive beam_far"
    "ref centre_ship = 0" "ref beam_plus = 1" "ref beam_minus = 2" "ref beam_far = 3"
    "team centre_ship = P" "team beam_plus = P" "team beam_minus = P" "team beam_far = P"
    by (simp_all add: centre_ship_def beam_plus_def beam_minus_def beam_far_def mkShip_def kind_DD_def)
  show "\<exists>al. avoid_threat centre_ship beam_plus = Some (- 0.35, al)"
    by (simp add: avoid_threat_def Let_def f hypot_zero_left beam_samples beam_danger beam_direction
        clamp_def)
  show "\<exists>al. avoid_threat centre_ship beam_minus = Some (0.35, al)"
    by (simp add: avoid_threat_def Let_def f hypot_zero_left beam_samples beam_danger beam_direction
        clamp_def)
  show "\<exists>al. avoid_threat centre_ship beam_far = Some (- 0.105, al)"
    by (simp add: avoid_threat_def Let_def f hypot_zero_left beam_samples beam_danger beam_direction
        clamp_def)
  show "avoid_threat centre_ship centre_ship = None" by (simp add: avoid_threat_def)
  show "avoid_threat centre_ship raider = None"
    by (simp add: avoid_threat_def centre_ship_def raider_def mkShip_def)
  show "avoid_threat centre_ship closing_b = None"
    by (simp add: avoid_threat_def centre_ship_def closing_b_def mkShip_def hypot_zero_right Let_def)
qed

lemma beam_steer: "steer (calculateAvoidanceSteering centre_ship [beam_plus, centre_ship, beam_minus]) = 0"
proof -
  obtain a1 a2 where "avoid_threat centre_ship beam_plus = Some (- 0.35, a1)"
      "avoid_threat centre_ship beam_minus = Some (0.35, a2)"
    using beam_threats(1,2) by blast
  then show ?thesis
    by (simp add: calculateAvoidanceSteering_def beam_threats(4) clamp_def)
qed

theorem flagged_pairs_get_no_steering:
  "(alive closing_a \<and> alive closing_b \<and> team closing_a = team closing_b \<and>
    (\<exists>p. predictCollision closing_a closing_b 6 = Some p \<and> willCollide p \<and> 0 < urgency p) \<and>
    steer (calculateAvoidanceSteering closing_a [closing_a, closing_b]) = 0 \<and>
    steer (calculateAvoidanceSteering closing_b [closing_a, closing_b]) = 0) \<and>
   (alive berthed_a \<and> alive berthed_b \<and> team berthed_a = team berthed_b \<and>
    hypot (shipx berthed_b - shipx berthed_a) (shipy berthed_b - shipy berthed_a) = 95 \<and>
    (\<exists>p. predictCollision berthed_a berthed_b 6 = Some p \<and> willCollide p \<and> urgency p = 1) \<and>
    steer (calculateAvoidanceSteering berthed_a [berthed_a, berthed_b]) = 0 \<and>
    steer (calculateAvoidanceSteering berthed_b [berthed_a, berthed_b]) = 0) \<and>
   (alive centre_ship \<and> alive beam_plus \<and> alive beam_minus \<and>
    team beam_plus = team centre_ship \<and> team beam_minus = team centre_ship \<and>
    (\<exists>p. predictCollision centre_ship beam_plus 6 = Some p \<and> willCollide p \<and> urgency p = 1) \<and>
    (\<exists>p. predictCollision centre_ship beam_minus 6 = Some p \<and> willCollide p \<and> urgency p = 1) \<and>
    steering_threat centre_ship beam_plus \<and> steering_threat centre_ship beam_minus \<and>
    steer (calculateAvoidanceSteering centre_ship [beam_plus, centre_ship, beam_minus]) = 0)"
proof -
  have one: "alive closing_a \<and> alive closing_b \<and> team closing_a = team closing_b \<and>
    (\<exists>p. predictCollision closing_a closing_b 6 = Some p \<and> willCollide p \<and> 0 < urgency p) \<and>
    steer (calculateAvoidanceSteering closing_a [closing_a, closing_b]) = 0 \<and>
    steer (calculateAvoidanceSteering closing_b [closing_a, closing_b]) = 0"
    by (simp add: closing_prediction closing_steer_a closing_steer_b)
       (simp add: closing_a_def closing_b_def mkShip_def)
  have two: "alive berthed_a \<and> alive berthed_b \<and> team berthed_a = team berthed_b \<and>
    hypot (shipx berthed_b - shipx berthed_a) (shipy berthed_b - shipy berthed_a) = 95 \<and>
    (\<exists>p. predictCollision berthed_a berthed_b 6 = Some p \<and> willCollide p \<and> urgency p = 1) \<and>
    steer (calculateAvoidanceSteering berthed_a [berthed_a, berthed_b]) = 0 \<and>
    steer (calculateAvoidanceSteering berthed_b [berthed_a, berthed_b]) = 0"
    by (simp add: berthed_prediction berthed_steer_a berthed_steer_b)
       (simp add: berthed_a_def berthed_b_def mkShip_def hypot_zero_right)
  have three: "alive centre_ship \<and> alive beam_plus \<and> alive beam_minus \<and>
    team beam_plus = team centre_ship \<and> team beam_minus = team centre_ship \<and>
    (\<exists>p. predictCollision centre_ship beam_plus 6 = Some p \<and> willCollide p \<and> urgency p = 1) \<and>
    (\<exists>p. predictCollision centre_ship beam_minus 6 = Some p \<and> willCollide p \<and> urgency p = 1) \<and>
    steering_threat centre_ship beam_plus \<and> steering_threat centre_ship beam_minus \<and>
    steer (calculateAvoidanceSteering centre_ship [beam_plus, centre_ship, beam_minus]) = 0"
    by (simp add: beam_prediction beam_steer steering_threat_def beam_danger)
       (simp add: centre_ship_def beam_plus_def beam_minus_def mkShip_def hypot_zero_left)
  from one two three show ?thesis by blast
qed

lemma avoid_threat_iff: "avoid_threat ship other = None \<longleftrightarrow> \<not> steering_threat ship other"
  by (auto simp: avoid_threat_def steering_threat_def Let_def split: prod.splits)

lemma avoid_threat_summand:
  assumes "avoid_threat ship other = Some (c, al)"
  shows "0.105 \<le> c * steer_direction ship other \<and> c * steer_direction ship other \<le> 0.35"
proof -
  define u where "u = clamp (1 - ((min (hypot (shipx other - shipx ship) (shipy other - shipy ship))
      (fst (avoid_samples ship other 0.3 (hypot (shipx other - shipx ship) (shipy other - shipy ship), 0)))
      - (radius (kind ship) + radius (kind other) + 25)) / 50)) 0.3 1.0"
  have ub: "0.3 \<le> u" "u \<le> 1" using clamp_bounds [of "0.3" "1.0"] by (simp_all add: u_def)
  have c: "c = steer_direction ship other * 0.35 * u"
    using assms by (auto simp: avoid_threat_def Let_def u_def split: prod.splits if_splits)
  have "steer_direction ship other * steer_direction ship other = 1"
    using steer_direction_unit [of ship other] by auto
  then have "c * steer_direction ship other = 0.35 * u" unfolding c by simp
  then show ?thesis using ub by simp
qed

lemma avoid_loop_one_direction:
  assumes "\<not> (\<exists>v \<in> set xs. steering_threat ship v \<and> steer_direction ship v \<noteq> d)"
  shows "fst acc * d \<le> fst (avoid_loop ship xs acc) * d \<and>
         ((\<exists>v \<in> set xs. steering_threat ship v) \<longrightarrow>
            fst acc * d + 0.105 \<le> fst (avoid_loop ship xs acc) * d)"
  using assms
proof (induction xs arbitrary: acc)
  case Nil
  then show ?case by simp
next
  case (Cons v xs)
  have rest: "\<not> (\<exists>v \<in> set xs. steering_threat ship v \<and> steer_direction ship v \<noteq> d)"
    using Cons.prems by simp
  show ?case
  proof (cases "avoid_threat ship v")
    case None
    then have "\<not> steering_threat ship v" using avoid_threat_iff [of ship v] by simp
    then show ?thesis using Cons.IH [OF rest, of acc] None by simp
  next
    case (Some r)
    obtain c al where r: "r = (c, al)" by (cases r)
    have t: "steering_threat ship v" using Some avoid_threat_iff [of ship v] by simp
    then have dir: "steer_direction ship v = d" using Cons.prems by simp
    have s: "0.105 \<le> c * d" using avoid_threat_summand [of ship v c al] Some r dir by simp
    have "(fst acc + c) * d \<le> fst (avoid_loop ship xs (fst acc + c, Some al)) * d"
      using Cons.IH [OF rest, of "(fst acc + c, Some al)"] by simp
    then have "fst acc * d + 0.105 \<le> fst (avoid_loop ship (v # xs) acc) * d"
      using s Some r by (simp add: algebra_simps)
    then show ?thesis by simp
  qed
qed

text \<open>
  Claim C7, as amended. Let \<open>predictCollision\<close> flag a living pair of one team with
  urgency above 0, and let the steering's own test flag the pair as well: the two are at
  most 200 apart, and their separation is below the hull radii plus 65 now or below the
  hull radii plus 55 at one of the times 0.3, 0.6, ..., 3.0. Then
  \<open>calculateAvoidanceSteering\<close>, run for one ship of the pair on any roster that holds the
  other, returns a bias of magnitude between 0.105 and 0.55, provided that no vessel of
  the roster that the test flags calls for the opposite turn.
\<close>

theorem avoidance_nonzero_for_steering_threat:
  assumes "alive ship" "alive other" "team other = team ship" "ref other \<noteq> ref ship"
      and "predictCollision ship other 6 = Some p" "willCollide p" "0 < urgency p"
      and "other \<in> set roster"
      and "hypot (shipx other - shipx ship) (shipy other - shipy ship) \<le> 200"
      and "in_danger ship other"
      and "\<not> (\<exists>v \<in> set roster. steering_threat ship v \<and>
                 steer_direction ship v \<noteq> steer_direction ship other)"
  shows "0.105 \<le> \<bar>steer (calculateAvoidanceSteering ship roster)\<bar> \<and>
         \<bar>steer (calculateAvoidanceSteering ship roster)\<bar> \<le> 0.55"
proof -
  define d where "d = steer_direction ship other"
  define total where "total = fst (avoid_loop ship roster (0, None))"
  have t: "steering_threat ship other" using assms by (simp add: steering_threat_def)
  then have ex: "\<exists>v \<in> set roster. steering_threat ship v" using assms(8) by blast
  have "0 * d + 0.105 \<le> total * d"
    using avoid_loop_one_direction [of roster ship d "(0, None)"] assms(11) ex
    unfolding d_def total_def by simp
  moreover have "d = 1 \<or> d = - 1" unfolding d_def by (rule steer_direction_unit)
  ultimately have big: "0.105 \<le> \<bar>total\<bar>" by auto
  have s: "steer (calculateAvoidanceSteering ship roster) = clamp total (- 0.55) 0.55"
    by (simp add: calculateAvoidanceSteering_def total_def split: prod.splits)
  show ?thesis unfolding s using big by (auto simp: clamp_def)
qed

theorem avoidance_nonzero_for_steering_threat_witness:
  "alive centre_ship \<and> alive beam_plus \<and> team beam_plus = team centre_ship \<and>
   ref beam_plus \<noteq> ref centre_ship \<and>
   (\<exists>p. predictCollision centre_ship beam_plus 6 = Some p \<and> willCollide p \<and> 0 < urgency p) \<and>
   beam_plus \<in> set [centre_ship, raider, beam_far, closing_b, beam_plus] \<and>
   hypot (shipx beam_plus - shipx centre_ship) (shipy beam_plus - shipy centre_ship) \<le> 200 \<and>
   in_danger centre_ship beam_plus \<and>
   \<not> (\<exists>v \<in> set [centre_ship, raider, beam_far, closing_b, beam_plus].
         steering_threat centre_ship v \<and>
         steer_direction centre_ship v \<noteq> steer_direction centre_ship beam_plus) \<and>
   steering_threat centre_ship beam_far \<and> \<not> steering_threat centre_ship closing_b \<and>
   0.105 \<le> \<bar>steer (calculateAvoidanceSteering centre_ship
                     [centre_ship, raider, beam_far, closing_b, beam_plus])\<bar> \<and>
   \<bar>steer (calculateAvoidanceSteering centre_ship
            [centre_ship, raider, beam_far, closing_b, beam_plus])\<bar> \<le> 0.55 \<and>
   steer (calculateAvoidanceSteering centre_ship
            [centre_ship, raider, beam_far, closing_b, beam_plus]) = - 0.455"
proof -
  let ?roster = "[centre_ship, raider, beam_far, closing_b, beam_plus]"
  have a: "alive centre_ship" "alive beam_plus" "team beam_plus = team centre_ship"
    "ref beam_plus \<noteq> ref centre_ship"
    by (simp_all add: centre_ship_def beam_plus_def mkShip_def)
  have p: "predictCollision centre_ship beam_plus 6 =
     Some \<lparr>willCollide = True, timeToCollision = 0, otherShip = 1, urgency = 1,
           pdx = 0, pdy = 50, currentDist = 50, futureDist = None\<rparr>"
    by (rule beam_prediction)
  have pw: "willCollide \<lparr>willCollide = True, timeToCollision = 0, otherShip = 1, urgency = 1,
           pdx = 0, pdy = 50, currentDist = 50, futureDist = None\<rparr>"
    and pu: "0 < urgency \<lparr>willCollide = True, timeToCollision = 0, otherShip = 1, urgency = 1,
           pdx = 0, pdy = 50, currentDist = 50, futureDist = None\<rparr>"
    by simp_all
  have m: "beam_plus \<in> set ?roster" by simp
  have h: "hypot (shipx beam_plus - shipx centre_ship) (shipy beam_plus - shipy centre_ship) \<le> 200"
    by (simp add: centre_ship_def beam_plus_def mkShip_def hypot_zero_left)
  have i: "in_danger centre_ship beam_plus" by (rule beam_danger)
  have n: "\<not> steering_threat centre_ship centre_ship" "\<not> steering_threat centre_ship raider"
    "\<not> steering_threat centre_ship closing_b" "steering_threat centre_ship beam_far"
  proof -
    show "\<not> steering_threat centre_ship centre_ship"
      using beam_threats(4) avoid_threat_iff [of centre_ship centre_ship] by simp
    show "\<not> steering_threat centre_ship raider"
      using beam_threats(5) avoid_threat_iff [of centre_ship raider] by simp
    show "\<not> steering_threat centre_ship closing_b"
      using beam_threats(6) avoid_threat_iff [of centre_ship closing_b] by simp
    obtain a3 where "avoid_threat centre_ship beam_far = Some (- 0.105, a3)"
      using beam_threats(3) by blast
    then show "steering_threat centre_ship beam_far"
      using avoid_threat_iff [of centre_ship beam_far] by simp
  qed
  have s: "\<not> (\<exists>v \<in> set ?roster. steering_threat centre_ship v \<and>
         steer_direction centre_ship v \<noteq> steer_direction centre_ship beam_plus)"
    using n by (simp add: beam_direction)
  obtain a1 a2 where th: "avoid_threat centre_ship beam_plus = Some (- 0.35, a1)"
      "avoid_threat centre_ship beam_far = Some (- 0.105, a2)"
    using beam_threats(1,3) by blast
  have v: "steer (calculateAvoidanceSteering centre_ship ?roster) = - 0.455"
    by (simp add: calculateAvoidanceSteering_def beam_threats(4,5,6) th clamp_def)
  from avoidance_nonzero_for_steering_threat [OF a p pw pu m h i s] a p m h i s n v
  show ?thesis by simp
qed

section \<open>Proofs: vehicle dynamics\<close>









text \<open>
  Claim C9, at its failing input. A ship whose rudder angle is NaN enters \<open>applyRudder\<close>
  with a desired turn of 0 and a time step of 0: the return-to-centre branch reads the
  rudder through \<open>Math.sign\<close> without the \<open>|| 0\<close> guard, and the NaN reaches the angular
  velocity and the heading before the closing check resets the rudder.
\<close>

theorem applyRudder_corrupt_rudder_zero_dt:
  "applyRudder old_config (turnRate kind_DD) corrupt_helm 0 0 =
     \<lparr>rudderAngle = Num 0, angularVel = NaN, helm_heading = NaN, throttle = Num 50\<rparr>"
  by (simp add: applyRudder_def turn_filter_def corrupt_helm_def new_helm_def old_config_def
      kind_DD_def clamp_def Let_def js_or0_def js_isNaN_def js_clamp_def js_max_def js_min_def
      js_sub_def js_add_def js_mul_def js_div_def js_abs_def js_sign_def js_lift2_def)

lemma js_num_ops:
  "js_add (Num a) (Num b) = Num (a + b)"
  "js_sub (Num a) (Num b) = Num (a - b)"
  "js_mul (Num a) (Num b) = Num (a * b)"
  "js_max (Num a) (Num b) = Num (max a b)"
  "js_min (Num a) (Num b) = Num (min a b)"
  "js_abs (Num a) = Num \<bar>a\<bar>"
  "js_sign (Num a) = Num (sgn a)"
  "b \<noteq> 0 \<Longrightarrow> js_div (Num a) (Num b) = Num (a / b)"
  "js_clamp (Num a) (Num lo) (Num hi) = Num (max lo (min hi a))"
  "js_isNaN (Num a) = False" "js_isNaN NaN = True" "js_isNaN Undefined = True"
  "is_number (Num a) = True"
  by (simp_all add: js_add_def js_sub_def js_mul_def js_max_def js_min_def js_abs_def js_sign_def
      js_div_def js_clamp_def js_isNaN_def js_lift2_def is_number_def)

lemma turn_filter_numbers:
  assumes "is_number rudder1" "is_number (helm_heading h)" "MAX_RUDDER_ANGLE cfg \<noteq> 0"
  shows "is_number (rudderAngle (turn_filter cfg tr g c i h rudder1 dt)) \<and>
         is_number (angularVel (turn_filter cfg tr g c i h rudder1 dt)) \<and>
         is_number (helm_heading (turn_filter cfg tr g c i h rudder1 dt))"
proof -
  obtain r where r: "rudder1 = Num r" using assms(1) by (cases rudder1) (auto simp: is_number_def)
  obtain hd where hd: "helm_heading h = Num hd" using assms(2) by (cases "helm_heading h") (auto simp: is_number_def)
  show ?thesis
    using assms(3)
    by (cases "angularVel h") (simp_all add: turn_filter_def r hd Let_def js_num_ops)
qed

lemma applyRudder_heals:
  assumes "0 < dt" "MAX_RUDDER_ANGLE cfg \<noteq> 0" "is_number (helm_heading h)"
  shows "is_number (rudderAngle (applyRudder cfg tr h desired dt)) \<and>
         is_number (angularVel (applyRudder cfg tr h desired dt)) \<and>
         is_number (helm_heading (applyRudder cfg tr h desired dt))"
  unfolding applyRudder_def Let_def
  apply (rule turn_filter_numbers)
  subgoal
    using assms(1)
    by (cases "rudderAngle h")
       (auto simp: is_number_def js_or0_def js_sub_def js_mul_def js_sign_def js_lift2_def)
  subgoal by (rule assms(3))
  subgoal by (rule assms(2))
  done

lemma updateAIThrottle_heals: "is_number (throttle (updateAIThrottle cfg h target dt))"
  by (simp add: updateAIThrottle_def Let_def is_number_def)

































lemma exact_arith_sound: "sound_arith 0 exact_arith \<and> tolerance 0 = 1"
  by (simp add: sound_arith_def exact_arith_def tolerance_def)




text \<open>
  Rounding to binary64 has a relative error of at most 2^-53, and the rounded value of a
  number is determined by its binade and its nearest multiple of the unit in the last
  place.
\<close>

lemma round_even_unique:
  assumes "\<bar>m - of_int n\<bar> < 1 / 2"
  shows "round_even m = n"
proof -
  have r: "- (1 / 2) < m - of_int n" "m - of_int n < 1 / 2" using assms by linarith+
  have "\<lfloor>m\<rfloor> = n \<or> \<lfloor>m\<rfloor> = n - 1" using assms by linarith
  then show ?thesis
  proof
    assume f: "\<lfloor>m\<rfloor> = n"
    then have "m - of_int \<lfloor>m\<rfloor> < 1 / 2" using r by simp
    then show ?thesis using f by (simp add: round_even_def Let_def)
  next
    assume f: "\<lfloor>m\<rfloor> = n - 1"
    have "m - of_int \<lfloor>m\<rfloor> = (m - of_int n) + 1" unfolding f by simp
    then have d: "1 / 2 < m - of_int \<lfloor>m\<rfloor>" using r by linarith
    then have "\<not> m - of_int \<lfloor>m\<rfloor> < 1 / 2" by linarith
    then show ?thesis using f d by (simp add: round_even_def Let_def)
  qed
qed




lemma fl64_eval:
  assumes lo: "2 ^ 52 \<le> \<bar>x\<bar> * 2 ^ k" and hi: "\<bar>x\<bar> * 2 ^ k < 2 ^ 53"
      and near: "\<bar>x * 2 ^ k - of_int n\<bar> < 1 / 2"
  shows "fl64 x = of_int n / 2 ^ k"
proof -
  have x0: "x \<noteq> 0" using lo by auto
  have pk: "(2::real) ^ k = 2 powr (of_nat k)" by (simp add: powr_realpow)
  have p52: "(2::real) powr (52 - real k) = 2 ^ 52 / 2 ^ k"
    unfolding pk by (simp add: powr_diff powr_numeral [symmetric] del: powr_numeral)
  have p53: "(2::real) powr (53 - real k) = 2 ^ 53 / 2 ^ k"
    unfolding pk by (simp add: powr_diff powr_numeral [symmetric] del: powr_numeral)
  have "2 powr (52 - real k) \<le> \<bar>x\<bar>"
    unfolding p52 using lo by (simp add: pos_divide_le_eq del: power_numeral)
  then have l1: "52 - real k \<le> log 2 \<bar>x\<bar>" using x0 by (simp add: le_log_iff)
  have "\<bar>x\<bar> < 2 powr (53 - real k)"
    unfolding p53 using hi by (simp add: pos_less_divide_eq del: power_numeral)
  then have l2: "log 2 \<bar>x\<bar> < 53 - real k" using x0 by (simp add: log_less_iff)
  have "\<lfloor>log 2 \<bar>x\<bar>\<rfloor> = 52 - int k"
    using l1 l2 by (intro floor_unique) simp_all
  then have f: "fl64 x = of_int (round_even (x / (2 powr (- real k)))) * 2 powr (- real k)"
    using x0 by (simp add: fl64_def Let_def)
  have u: "2 powr (- real k) = 1 / 2 ^ k" by (simp add: powr_minus pk inverse_eq_divide)
  have "round_even (x * 2 ^ k) = n" using near by (rule round_even_unique)
  then show ?thesis unfolding f u by simp
qed

lemma fl64_sqrt_eval:
  assumes q: "0 \<le> q" and n: "1 \<le> n"
      and lo: "(2 ^ 52)\<^sup>2 \<le> q * (2 ^ k)\<^sup>2" and hi: "q * (2 ^ k)\<^sup>2 < (2 ^ 53)\<^sup>2"
      and below: "(of_int n - 1 / 2)\<^sup>2 < q * (2 ^ k)\<^sup>2"
      and above: "q * (2 ^ k)\<^sup>2 < (of_int n + 1 / 2)\<^sup>2"
  shows "fl64 (sqrt q) = of_int n / 2 ^ k"
proof -
  define t where "t = sqrt q * 2 ^ k"
  have t0: "0 \<le> t" using q by (simp add: t_def)
  have t2: "q * (2 ^ k)\<^sup>2 = t\<^sup>2" using q by (simp add: t_def power_mult_distrib)
  have "((2::real) ^ 52)\<^sup>2 \<le> t\<^sup>2" using lo unfolding t2 .
  then have a: "2 ^ 52 \<le> t" using t0 by (rule power2_le_imp_le)
  have "t\<^sup>2 < ((2::real) ^ 53)\<^sup>2" using hi unfolding t2 .
  then have b: "t < 2 ^ 53" by (rule power2_less_imp_less) simp
  have "(of_int n - 1 / 2)\<^sup>2 < t\<^sup>2" using below unfolding t2 .
  then have c: "of_int n - 1 / 2 < t" using t0 by (rule power2_less_imp_less)
  have "t\<^sup>2 < (of_int n + 1 / 2)\<^sup>2" using above unfolding t2 .
  moreover have "0 \<le> real_of_int n + 1 / 2" using n by simp
  ultimately have d: "t < of_int n + 1 / 2" by (rule power2_less_imp_less)
  have s0: "\<bar>sqrt q\<bar> = sqrt q" using q by simp
  have near: "\<bar>sqrt q * 2 ^ k - of_int n\<bar> < 1 / 2" using c d unfolding t_def by linarith
  show ?thesis
    by (rule fl64_eval) (use a b near in \<open>simp_all only: s0 t_def [symmetric]\<close>)
qed

text \<open>
  The roundings of the tick of the destroyer at full throttle, in the order in which the
  tick performs them.
\<close>

lemma round_1: "rnd binary64 (7 / 25) = 1261007895663739 / 4503599627370496"
  using fl64_eval [of "7 / 25" 54 5044031582654956] by (simp add: binary64_def)

lemma round_2: "rnd binary64 (145015908001329985 / 4503599627370496) = 2265873562520781 / 70368744177664"
  using fl64_eval [of "145015908001329985 / 4503599627370496" 47 4531747125041562] by (simp add: binary64_def)

lemma round_3: "rnd binary64 (44135276348230865 / 2251799813685248) = 2758454771764429 / 140737488355328"
  using fl64_eval [of "44135276348230865 / 2251799813685248" 48 5516909543528858] by (simp add: binary64_def)

lemma round_4: "rnd binary64 (1 / 60) = 4803839602528529 / 288230376151711744"
  using fl64_eval [of "1 / 60" 58 4803839602528529] by (simp add: binary64_def)

lemma round_5: "rnd binary64 (4 / 5) = 3602879701896397 / 4503599627370496"
  using fl64_eval [of "4 / 5" 53 7205759403792794] by (simp add: binary64_def)

lemma round_6: "rnd binary64 (9938380705789319780001047862313 / 633825300114114700748351602688) = 8827055269646173 / 562949953421312"
  using fl64_eval [of "9938380705789319780001047862313 / 633825300114114700748351602688" 49 8827055269646173] by (simp add: binary64_def)

lemma round_7: "rnd binary64 (8827055269646173 / 562949953421312) = 8827055269646173 / 562949953421312"
  using fl64_eval [of "8827055269646173 / 562949953421312" 49 8827055269646173] by (simp add: binary64_def)

lemma round_8: "rnd binary64 (42403757678034429079753968169517 / 162259276829213363391578010288128) = 4707762810477959 / 18014398509481984"
  using fl64_eval [of "42403757678034429079753968169517 / 162259276829213363391578010288128" 54 4707762810477959] by (simp add: binary64_def)

lemma round_9: "rnd binary64 (582294415020744071 / 18014398509481984) = 4549175117349563 / 140737488355328"
  using fl64_eval [of "582294415020744071 / 18014398509481984" 47 4549175117349563] by (simp add: binary64_def)

lemma round_10: "rnd binary64 (11 / 8) = 11 / 8"
  using fl64_eval [of "11 / 8" 52 6192449487634432] by (simp add: binary64_def)

lemma round_11: "rnd binary64 (249 / 250) = 2242792614430507 / 2251799813685248"
  using fl64_eval [of "249 / 250" 53 8971170457722028] by (simp add: binary64_def)

lemma round_12: "rnd binary64 (2265873562520781 / 70368744177664) = 2265873562520781 / 70368744177664"
  using fl64_eval [of "2265873562520781 / 70368744177664" 47 4531747125041562] by (simp add: binary64_def)

lemma round_13: "rnd binary64 (1) = 1"
  using fl64_eval [of "1" 52 4503599627370496] by (simp add: binary64_def)

lemma round_14: "rnd binary64 (23 / 25) = 8286623314361713 / 9007199254740992"
  using fl64_eval [of "23 / 25" 53 8286623314361713] by (simp add: binary64_def)

lemma round_15: "rnd binary64 (18776440690580536368008313257853 / 633825300114114700748351602688) = 4169207355038237 / 140737488355328"
  using fl64_eval [of "18776440690580536368008313257853 / 633825300114114700748351602688" 48 8338414710076474] by (simp add: binary64_def)

lemma round_16: "rnd binary64 (720575940379279 / 9007199254740992) = 720575940379279 / 9007199254740992"
  using fl64_eval [of "720575940379279 / 9007199254740992" 56 5764607523034232] by (simp add: binary64_def)

lemma round_17: "rnd binary64 (1632733973093958797528459296899 / 633825300114114700748351602688) = 1450159080013299 / 562949953421312"
  using fl64_eval [of "1632733973093958797528459296899 / 633825300114114700748351602688" 51 5800636320053196] by (simp add: binary64_def)

lemma round_18: "rnd binary64 (18126988500166247 / 562949953421312) = 2265873562520781 / 70368744177664"
  using fl64_eval [of "18126988500166247 / 562949953421312" 47 4531747125041562] by (simp add: binary64_def)

lemma round_19: "rnd binary64 (9 / 10) = 8106479329266893 / 9007199254740992"
  using fl64_eval [of "9 / 10" 53 8106479329266893] by (simp add: binary64_def)

lemma round_20: "rnd binary64 (36877794054009524721278003917759 / 1267650600228229401496703205376) = 4094257605614607 / 140737488355328"
  using fl64_eval [of "36877794054009524721278003917759 / 1267650600228229401496703205376" 48 8188515211229214] by (simp add: binary64_def)

lemma round_21: "rnd binary64 (1 / 10) = 3602879701896397 / 36028797018963968"
  using fl64_eval [of "1 / 10" 56 7205759403792794] by (simp add: binary64_def)

lemma round_22: "rnd binary64 (8163669865469798519389421526057 / 2535301200456458802993406410752) = 1812698850016625 / 562949953421312"
  using fl64_eval [of "8163669865469798519389421526057 / 2535301200456458802993406410752" 51 7250795400066500] by (simp add: binary64_def)

lemma round_23: "rnd binary64 (18189729272475053 / 562949953421312) = 4547432318118763 / 140737488355328"
  using fl64_eval [of "18189729272475053 / 562949953421312" 47 4547432318118763] by (simp add: binary64_def)

lemma round_24: "rnd binary64 (89171272621935823 / 72057594037927936) = 5573204538870989 / 4503599627370496"
  using fl64_eval [of "89171272621935823 / 72057594037927936" 52 5573204538870989] by (simp add: binary64_def)

lemma round_25: "rnd binary64 (5573204538870989 / 4503599627370496) = 5573204538870989 / 4503599627370496"
  using fl64_eval [of "5573204538870989 / 4503599627370496" 52 5573204538870989] by (simp add: binary64_def)

lemma round_26: "rnd binary64 (72057594037927935 / 72057594037927936) = 1"
  using fl64_eval [of "72057594037927935 / 72057594037927936" 53 9007199254740992] by (simp add: binary64_def)

lemma round_27: "rnd binary64 (2242792614430507 / 2251799813685248) = 2242792614430507 / 2251799813685248"
  using fl64_eval [of "2242792614430507 / 2251799813685248" 53 8971170457722028] by (simp add: binary64_def)

lemma round_28: "rnd binary64 (10198947617699361476192836302841 / 316912650057057350374175801344) = 283077661802893 / 8796093022208"
  using fl64_eval [of "10198947617699361476192836302841 / 316912650057057350374175801344" 47 4529242588846288] by (simp add: binary64_def)

lemma round_29: "rnd binary64 (12499541978490433594490978861423 / 10141204801825835211973625643008) = 5550911720715505 / 4503599627370496"
  using fl64_eval [of "12499541978490433594490978861423 / 10141204801825835211973625643008" 52 5550911720715505] by (simp add: binary64_def)

lemma round_30: "rnd binary64 (4531747125041562 / 4532563168754201) = 9005577596520983 / 9007199254740992"
  using fl64_eval [of "4531747125041562 / 4532563168754201" 53 9005577596520983] by (simp add: binary64_def)

lemma round_31: "rnd binary64 (2549277849207676818264284603819 / 79228162514264337593543950336) = 4528427142971617 / 140737488355328"
  using fl64_eval [of "2549277849207676818264284603819 / 79228162514264337593543950336" 47 4528427142971617] by (simp add: binary64_def)

lemma round_32: "rnd binary64 (49989166232341291558819505941415 / 40564819207303340847894502572032) = 5549912333295969 / 4503599627370496"
  using fl64_eval [of "49989166232341291558819505941415 / 40564819207303340847894502572032" 52 5549912333295969] by (simp add: binary64_def)

lemma round_33: "rnd binary64 (21753837646572174776024079761393 / 40564819207303340847894502572032) = 4830322285836391 / 9007199254740992"
  using fl64_eval [of "21753837646572174776024079761393 / 40564819207303340847894502572032" 53 4830322285836391] by (simp add: binary64_def)

lemma round_34: "rnd binary64 (27026428086508812391 / 9007199254740992) = 824781130569727 / 274877906944"
  using fl64_eval [of "27026428086508812391 / 9007199254740992" 41 6598249044557816] by (simp add: binary64_def)

lemma round_35: "rnd binary64 (26660888657248688684768923199601 / 1298074214633706907132624082305024) = 2959953244424517 / 144115188075855872"
  using fl64_eval [of "26660888657248688684768923199601 / 1298074214633706907132624082305024" 58 5919906488849034] by (simp add: binary64_def)

lemma round_36: "rnd binary64 (432348524180812040517 / 144115188075855872) = 412319683247387 / 137438953472"
  using fl64_eval [of "432348524180812040517 / 144115188075855872" 41 6597114931958192] by (simp add: binary64_def)



lemma round_hypot: "lib_hypot binary64 (283077661802893 / 8796093022208) (5550911720715505 / 4503599627370496) = 4532563168754201 / 140737488355328"
  using fl64_sqrt_eval [of "21037187971837058417060069919443681 / 20282409603651670423947251286016" 4532563168754201 47] by (simp add: binary64_def hypot_def power2_eq_square)

lemmas evals = round_1 round_2 round_3 round_4 round_5 round_6 round_7 round_8 round_9 round_10 round_11 round_12 round_13 round_14 round_15 round_16 round_17 round_18 round_19 round_20 round_21 round_22 round_23 round_24 round_25 round_26 round_27 round_28 round_29 round_30 round_31 round_32 round_33 round_34 round_35 round_36


lemma kind64: "maxSpeed kind_DD64 = 2265873562520781 / 70368744177664"
  "accel kind_DD64 = 2758454771764429 / 140737488355328"
  "ktype kind_DD64 = DD" "radius kind_DD64 = 14" "turnRate kind_DD64 = 1.5"
  by (simp_all add: kind_DD64_def kind_DD_def fmul_def lit_def evals)














lemma full_ahead_rescaled:
  "maxSpeed kind_DD64 < lib_hypot binary64 (283077661802893 / 8796093022208) (5550911720715505 / 4503599627370496)"
  by (simp add: round_hypot kind64)









section \<open>Proofs: local avoidance planner\<close>

lemma hypot_less_iff: "0 \<le> m \<Longrightarrow> hypot a b < m \<longleftrightarrow> a * a + b * b < m * m"
proof -
  assume m: "0 \<le> m"
  have e: "sqrt (m * m) = m" using m by simp
  have "sqrt (a * a + b * b) < sqrt (m * m) \<longleftrightarrow> a * a + b * b < m * m"
    by (rule real_sqrt_less_iff)
  then show ?thesis unfolding hypot_def e .
qed

lemma inLand_twin_target: "inLand 1000 500 134 twin_islands = None"
  by (simp add: inLand_def twin_islands_def Let_def upt_rec)

lemma push_target_twin: "push_target twin_islands 134 8 (1000, 500) = (1000, 500)"
  by (simp add: eval_nat_numeral inLand_twin_target)

lemma crossing_first: "pathCrossesLand 1000 1837 1000 500 134 twin_islands = Some 0"
proof -
  have s: "sqrt 1787569 = 1337" by (rule real_sqrt_unique) simp_all
  show ?thesis
    by (simp add: pathCrossesLand_def segment_hits_def twin_islands_def Let_def upt_rec s
        hypot_less_iff upto_rec1 clamp_def)
qed

lemma wrap_minus_pi: "wrap_up (wrap_down (- pi)) = - pi"
  using pi_gt_zero by simp

lemma push_off_twin_first: "push_off twin_islands 0 134 (1434, 1000) = Some (1116, 1000)"
proof -
  have a3: "atan2 0 (- 66) = pi" by (simp add: atan2_def)
  show ?thesis
    by (simp add: push_off_def twin_islands_def upt_rec hypot_zero_right a3 Let_def)
qed

lemma push_off_twin_second: "push_off twin_islands 0 134 (1116, 1000) = None"
  by (simp add: push_off_def twin_islands_def upt_rec hypot_zero_right)

lemma bypass_twin:
  "findWaypointAroundIsland old_config twin_islands 1000 1837 1000 500 0 134 = (1116, 1000)"
proof -
  have a1: "atan2 837 0 = pi / 2" by (simp add: atan2_def)
  have a2: "atan2 (- 500) 0 = - (pi / 2)" by (simp add: atan2_def)
  have d: "- (pi / 2) - pi / 2 = - pi" by simp
  have sg: "sgn (- pi) = - 1" using pi_gt_zero by simp
  have w: "pi / 2 + - 1 * pi * 0.5 = 0" by simp
  have l: "push_off_loop twin_islands 0 134 6 (1434, 1000) = (1116, 1000)"
    by (simp add: eval_nat_numeral push_off_twin_first push_off_twin_second)
  have c: "twin_islands ! 0 = \<lparr>ix = 1000, iy = 1000, ir = 100\<rparr>" by (simp add: twin_islands_def)
  show ?thesis
    unfolding findWaypointAroundIsland_def Let_def c
    by (simp add: a1 a2 d wrap_minus_pi sg l clamp_def old_config_def del: wrap_up.simps wrap_down.simps)
qed

lemma crossing_second: "pathCrossesLand 1000 1837 1116 1000 134 twin_islands = Some 0"
proof -
  have s: "sqrt 714025 = 845" by (rule real_sqrt_unique) simp_all
  show ?thesis
    by (simp add: pathCrossesLand_def segment_hits_def twin_islands_def Let_def upt_rec s
        hypot_less_iff upto_rec1 clamp_def)
qed

text \<open>
  Claim C5 says that the point returned by \<open>avoidLandTarget\<close> is never blocked at the
  planner's margin. It is, for a destroyer at (1000, 1837) ordered to (1000, 500) past the
  islands (1000, 1000) and (1500, 1000), both of radius 100, at the margin 134: the straight
  path crosses the first island; the bypass point (1434, 1000) around it is within reach of
  the second island and one pass of the retry loop pushes it to (1116, 1000); the next
  pass finds nothing, because the loop never tests the island being bypassed; no clamp to
  the world acts; and the planner returns (1116, 1000), which lies in the padded disc of
  the first island, 116 from its centre.
\<close>

theorem bypass_point_left_blocked:
  "planner_pad northern_ship = 134 \<and>
   pathCrossesLand (shipx northern_ship) (shipy northern_ship) 1000 500 134 twin_islands = Some 0 \<and>
   push_off twin_islands 0 134 (1434, 1000) = Some (1116, 1000) \<and>
   push_off twin_islands 0 134 (1116, 1000) = None \<and>
   findWaypointAroundIsland old_config twin_islands 1000 1837 1000 500 0 134 = (1116, 1000) \<and>
   avoidLandTarget old_config twin_islands northern_ship 1000 500 = (1116, 1000) \<and>
   inLand 1116 1000 (planner_pad northern_ship) twin_islands = Some 0 \<and>
   hypot (1116 - ix (twin_islands ! 0)) (1000 - iy (twin_islands ! 0)) = 116 \<and>
   blocked twin_islands (planner_pad northern_ship) (1116, 1000)"
proof -
  have pad: "planner_pad northern_ship = 134" by (simp add: planner_pad_def northern_ship_def mkShip_def kind_DD_def)
  have pos: "shipx northern_ship = 1000" "shipy northern_ship = 1837" by (simp_all add: northern_ship_def mkShip_def)
  have r: "avoidLandTarget old_config twin_islands northern_ship 1000 500 = (1116, 1000)"
    unfolding avoidLandTarget_def Let_def pad pos push_target_twin
    by (simp add: crossing_first bypass_twin crossing_second) (simp add: clamp_def old_config_def)
  have i: "inLand 1116 1000 134 twin_islands = Some 0"
    by (simp add: inLand_def twin_islands_def Let_def upt_rec)
  have h: "hypot (1116 - ix (twin_islands ! 0)) (1000 - iy (twin_islands ! 0)) = 116"
    by (simp add: twin_islands_def hypot_zero_right)
  have b: "blocked twin_islands 134 (1116, 1000)"
    by (simp add: blocked_def i)
  show ?thesis
    using r i h b crossing_first push_off_twin_first push_off_twin_second bypass_twin
    by (simp add: pad pos)
qed

declare wrap_up.simps [simp del] wrap_down.simps [simp del]

lemma blocked_iff_not_clear: "blocked land margin q \<longleftrightarrow> \<not> clear_of land margin q"
proof -
  have "inLand (fst q) (snd q) margin land = None \<longleftrightarrow>
        (\<forall>i < length land. \<not> ((fst q - ix (land ! i)) * (fst q - ix (land ! i)) +
             (snd q - iy (land ! i)) * (snd q - iy (land ! i))
             \<le> (ir (land ! i) + margin) * (ir (land ! i) + margin)))"
    by (simp add: inLand_def find_None_iff Let_def)
  also have "\<dots> \<longleftrightarrow> clear_of land margin q"
    by (auto simp: clear_of_def list_all_length not_le)
  finally show ?thesis by (simp add: blocked_def)
qed

lemma clamp_strict: "lo < clamp v lo hi \<Longrightarrow> clamp v lo hi < hi \<Longrightarrow> clamp v lo hi = v"
  by (auto simp: clamp_def max_def min_def split: if_splits)

lemma clamp_within: "lo < v \<Longrightarrow> v < hi \<Longrightarrow> clamp v lo hi = v"
  by (auto simp: clamp_def)

lemma find_single: "find Q [0..<Suc 0] = (if Q 0 then Some 0 else None)"
  by simp

lemma hypot_eq_zero_iff: "hypot a b = 0 \<longleftrightarrow> a = 0 \<and> b = 0"
  by (simp add: hypot_def sum_squares_eq_zero_iff)

lemma hypot_square: "hypot a b * hypot a b = a * a + b * b"
  by (simp add: hypot_def)

lemma radial_point:
  assumes "hypot dx dy \<noteq> 0"
  shows "(dx / hypot dx dy * w) * (dx / hypot dx dy * w) + (dy / hypot dx dy * w) * (dy / hypot dx dy * w) = w * w"
proof -
  have "(dx / hypot dx dy * w) * (dx / hypot dx dy * w) + (dy / hypot dx dy * w) * (dy / hypot dx dy * w)
        = (dx * dx + dy * dy) / (hypot dx dy * hypot dx dy) * (w * w)"
    by (simp add: add_divide_distrib algebra_simps)
  also have "\<dots> = (hypot dx dy * hypot dx dy) / (hypot dx dy * hypot dx dy) * (w * w)"
    by (simp only: hypot_square)
  also have "\<dots> = w * w" using assms by simp
  finally show ?thesis .
qed

lemma scaled_squares: "(u * k) * (u * k) + (v * k) * (v * k) = (k * k) * (u * u + v * v)" for u v k :: real
  by (simp add: algebra_simps)

lemma polar_point: "(cos a * m) * (cos a * m) + (sin a * m) * (sin a * m) = m * m" for a m :: real
proof -
  have "(cos a * m) * (cos a * m) + (sin a * m) * (sin a * m) = (m * m) * (cos a * cos a + sin a * sin a)"
    by (rule scaled_squares)
  also have "cos a * cos a + sin a * sin a = 1"
    using sin_cos_squared_add2 [of a] by (simp add: power2_eq_square)
  finally show ?thesis by simp
qed

lemma wider_square: "0 \<le> a \<Longrightarrow> 0 < b \<Longrightarrow> a * a < (a + b) * (a + b)" for a b :: real
  by (simp add: mult_strict_mono')

lemma single_push_clear:
  assumes "0 \<le> ir c + pad" and "(tx, ty) \<noteq> (ix c, iy c)"
  shows "clear_of [c] pad (push_target [c] pad 8 (tx, ty))"
proof (cases "inLand tx ty pad [c]")
  case None
  then have "clear_of [c] pad (tx, ty)"
    using blocked_iff_not_clear [of "[c]" pad "(tx, ty)"] by (simp add: blocked_def)
  moreover have "push_target [c] pad 8 (tx, ty) = (tx, ty)"
    using None by (simp add: eval_nat_numeral)
  ultimately show ?thesis by simp
next
  case (Some i)
  then have i: "i = 0" by (auto simp: inLand_def split: if_splits dest: find_SomeD)
  define dx dy where "dx = tx - ix c" and "dy = ty - iy c"
  have nz: "hypot dx dy \<noteq> 0" using assms(2) by (auto simp: hypot_eq_zero_iff dx_def dy_def)
  define q where "q = (ix c + dx / hypot dx dy * (ir c + pad + 80), iy c + dy / hypot dx dy * (ir c + pad + 80))"
  have "(fst q - ix c) * (fst q - ix c) + (snd q - iy c) * (snd q - iy c)
        = (ir c + pad + 80) * (ir c + pad + 80)"
    using radial_point [OF nz, of "ir c + pad + 80"] by (simp add: q_def)
  moreover have "(ir c + pad) * (ir c + pad) < (ir c + pad + 80) * (ir c + pad + 80)"
    using wider_square [OF assms(1), of 80] by simp
  ultimately have cl: "clear_of [c] pad q" by (simp add: clear_of_def)
  then have "inLand (fst q) (snd q) pad [c] = None"
    using blocked_iff_not_clear [of "[c]" pad q] by (simp add: blocked_def)
  then have "push_target [c] pad 7 q = q" by (simp add: eval_nat_numeral)
  moreover have "push_target [c] pad 8 (tx, ty) = push_target [c] pad 7 q"
    using Some i nz by (simp add: eval_nat_numeral Let_def q_def dx_def dy_def)
  ultimately show ?thesis using cl by simp
qed

lemma single_bypass:
  "\<exists>a. findWaypointAroundIsland cfg [c] sx sy tx ty 0 pad =
     (clamp (ix c + cos a * (ir c + pad + 200)) 200 (WORLD_w cfg - 200),
      clamp (iy c + sin a * (ir c + pad + 200)) 200 (WORLD_h cfg - 200))"
proof -
  have "push_off [c] 0 pad wp = None" for wp by (simp add: push_off_def)
  then have "push_off_loop [c] 0 pad 6 wp = wp" for wp by (simp add: eval_nat_numeral)
  then show ?thesis by (auto simp: findWaypointAroundIsland_def Let_def)
qed

lemma single_bypass_clear:
  assumes "0 \<le> ir c + pad"
      and r: "r = (clamp (fst w) 50 (WORLD_w cfg - 50), clamp (snd w) 50 (WORLD_h cfg - 50))"
      and w: "w = (clamp (ix c + cos a * (ir c + pad + 200)) 200 (WORLD_w cfg - 200),
                   clamp (iy c + sin a * (ir c + pad + 200)) 200 (WORLD_h cfg - 200))"
      and f: "in_frame cfg 200 r"
  shows "clear_of [c] pad r"
proof -
  have "fst r = fst w" "snd r = snd w"
    using r f by (auto simp: in_frame_def intro!: clamp_strict)
  then have rw: "r = w" by (simp add: prod_eq_iff)
  have "fst w = ix c + cos a * (ir c + pad + 200)" "snd w = iy c + sin a * (ir c + pad + 200)"
    using w f rw by (auto simp: in_frame_def intro!: clamp_strict)
  then have "(fst r - ix c) * (fst r - ix c) + (snd r - iy c) * (snd r - iy c)
        = (ir c + pad + 200) * (ir c + pad + 200)"
    using polar_point [of a "ir c + pad + 200"] rw by simp
  moreover have "(ir c + pad) * (ir c + pad) < (ir c + pad + 200) * (ir c + pad + 200)"
    using wider_square [OF assms(1), of 200] by simp
  ultimately show ?thesis by (simp add: clear_of_def)
qed

lemma single_crossing_cases:
  "pathCrossesLand sx sy qx qy pad [c] = None \<or> pathCrossesLand sx sy qx qy pad [c] = Some 0"
  by (cases "pathCrossesLand sx sy qx qy pad [c]")
     (auto simp: pathCrossesLand_def Let_def split: if_splits dest: find_SomeD)

lemma single_crossing_result:
  assumes "pathCrossesLand (shipx s) (shipy s) (fst p) (snd p) (planner_pad s) [c] = Some i"
      and "p = push_target [c] (planner_pad s) 8 (tx, ty)"
      and "w = findWaypointAroundIsland cfg [c] (shipx s) (shipy s) (fst p) (snd p) 0 (planner_pad s)"
  shows "avoidLandTarget cfg [c] s tx ty =
        (clamp (fst w) 50 (WORLD_w cfg - 50), clamp (snd w) 50 (WORLD_h cfg - 50))"
proof -
  have i: "i = 0" using assms(1) single_crossing_cases [of "shipx s" "shipy s" "fst p" "snd p" "planner_pad s" c] by simp
  show ?thesis
    using assms i single_crossing_cases [of "shipx s" "shipy s" "fst w" "snd w" "planner_pad s" c]
    by (auto simp: avoidLandTarget_def Let_def simp del: push_target.simps)
qed

text \<open>
  With a single island the defect cannot show: away from the world's edge the planner's
  result is clear of the island, whether it is the pushed target or the bypass point.
\<close>

lemma single_island_result:
  assumes "0 \<le> ir c" "0 \<le> radius (kind s)" "(tx, ty) \<noteq> (ix c, iy c)"
      and f: "in_frame cfg 200 (avoidLandTarget cfg [c] s tx ty)"
  shows "clear_of [c] (planner_pad s) (avoidLandTarget cfg [c] s tx ty)"
proof -
  let ?pad = "planner_pad s"
  let ?p = "push_target [c] ?pad 8 (tx, ty)"
  have pad: "0 \<le> ir c + ?pad" using assms(1,2) by (simp add: planner_pad_def)
  show ?thesis
  proof (cases "pathCrossesLand (shipx s) (shipy s) (fst ?p) (snd ?p) ?pad [c]")
    case None
    then have r: "avoidLandTarget cfg [c] s tx ty =
        (clamp (fst ?p) 50 (WORLD_w cfg - 50), clamp (snd ?p) 50 (WORLD_h cfg - 50))"
      by (simp add: avoidLandTarget_def Let_def del: push_target.simps)
    have "fst (avoidLandTarget cfg [c] s tx ty) = fst ?p" "snd (avoidLandTarget cfg [c] s tx ty) = snd ?p"
      using f unfolding r by (auto simp: in_frame_def simp del: push_target.simps intro!: clamp_strict)
    then have "avoidLandTarget cfg [c] s tx ty = ?p" by (simp add: prod_eq_iff del: push_target.simps)
    then show ?thesis using single_push_clear [OF pad assms(3)] by (simp del: push_target.simps)
  next
    case (Some i)
    obtain a where w: "findWaypointAroundIsland cfg [c] (shipx s) (shipy s) (fst ?p) (snd ?p) 0 ?pad =
       (clamp (ix c + cos a * (ir c + ?pad + 200)) 200 (WORLD_w cfg - 200),
        clamp (iy c + sin a * (ir c + ?pad + 200)) 200 (WORLD_h cfg - 200))"
      using single_bypass by blast
    show ?thesis by (rule single_bypass_clear [OF pad single_crossing_result [OF Some refl refl] w f])
  qed
qed

section \<open>Proofs: global route planner\<close>

lemma hypot_polar: "0 \<le> m \<Longrightarrow> hypot (cos a * m) (sin a * m) = m"
  using polar_point [of a m] by (simp add: hypot_def)

lemma bisector_range: "- (pi / 2) < bisector" "bisector < 0"
  using arctan_bounded [of "19 / 6"] by (simp_all add: bisector_def)

lemma sin_target_angle: "19 / 20 \<le> sin (arctan (19 / 6))"
proof -
  have "sqrt (1 + (19 / 6)\<^sup>2) \<le> 20 / 6"
    by (rule real_le_lsqrt) (simp_all add: power2_eq_square)
  moreover have "0 < sqrt (1 + (19 / 6 :: real)\<^sup>2)" by (simp add: power2_eq_square)
  ultimately have "(19 / 6) / (20 / 6) \<le> (19 / 6) / sqrt (1 + (19 / 6 :: real)\<^sup>2)"
    by (intro divide_left_mono) simp_all
  then show ?thesis by (simp add: sin_arctan)
qed

lemma bisector_sin_square: "(sin bisector)\<^sup>2 \<le> 1 / 40"
proof -
  have "2 * bisector = arctan (19 / 6) - pi / 2" by (simp add: bisector_def)
  then have "cos (2 * bisector) = sin (arctan (19 / 6))"
    by (simp add: cos_diff)
  then have "1 - 2 * (sin bisector)\<^sup>2 = sin (arctan (19 / 6))"
    by (simp add: cos_double_sin)
  then show ?thesis using sin_target_angle by linarith
qed

lemma bisector_sin: "\<bar>sin bisector\<bar> \<le> 4 / 21"
proof -
  have "(sin bisector)\<^sup>2 \<le> (4 / 21)\<^sup>2"
    using bisector_sin_square by (simp add: power2_eq_square)
  then show ?thesis by (simp add: power2_le_iff_abs_le)
qed

lemma bisector_cos: "2 / 7 \<le> cos bisector" "cos bisector \<le> 1"
proof -
  have pos: "0 < cos bisector"
    using bisector_range by (intro cos_gt_zero_pi) simp_all
  have "(cos bisector)\<^sup>2 = 1 - (sin bisector)\<^sup>2" by (rule cos_squared_eq)
  then have "(2 / 7)\<^sup>2 \<le> (cos bisector)\<^sup>2"
    using bisector_sin_square by (simp add: power2_eq_square)
  then have "\<bar>2 / 7\<bar> \<le> \<bar>cos bisector\<bar>" by (simp only: abs_le_square_iff)
  then show "2 / 7 \<le> cos bisector" using pos by simp
  show "cos bisector \<le> 1" by simp
qed


lemma push_total_single: "push_total px py margin [c] =
   (let dx = px - ix c; dy = py - iy c; d = hypot dx dy; minDist = ir c + margin
    in if d < minDist \<and> d > 0.1 then
         ((dx / d) * ((minDist - d) + 50), (dy / d) * ((minDist - d) + 50), True)
       else (0, 0, False))"
  by (simp add: push_total_def Let_def)

lemma safe_destination:
  assumes "2750 \<le> WORLD_h cfg"
  shows "pushToSafePoint cfg round_island 500 1500 700 = (800, 1950)"
proof -
  have t1: "push_total 500 1500 700 round_island = (0, 450, True)"
    by (simp add: round_island_def push_total_single Let_def hypot_zero_left)
  have t2: "push_total 500 1950 700 round_island = (0, 0, False)"
    by (simp add: round_island_def push_total_single Let_def hypot_zero_left)
  have "safe_loop 700 round_island 15 (500, 1500) = (500, 1950)"
    by (simp add: eval_nat_numeral t1 t2)
  then show ?thesis using assms by (simp add: pushToSafePoint_def clamp_def)
qed

lemma far_enough: "\<not> hypot 300 950 < 900" "760 \<le> hypot 300 950" "900 < hypot 300 950"
proof -
  have "900 < hypot 300 950" unfolding hypot_def by (rule real_less_rsqrt) simp
  then show "\<not> hypot 300 950 < 900" "760 \<le> hypot 300 950" "900 < hypot 300 950" by simp_all
qed

lemma destination_stays:
  assumes "1600 \<le> WORLD_w cfg" "2750 \<le> WORLD_h cfg"
  shows "pushToSafePoint cfg round_island 800 1950 700 = (800, 1950)"
proof -
  have t: "push_total 800 1950 700 round_island = (0, 0, False)"
    using far_enough(1) by (simp add: round_island_def push_total_single Let_def)
  have "safe_loop 700 round_island 15 (800, 1950) = (800, 1950)"
    by (simp add: eval_nat_numeral t)
  then show ?thesis using assms by (simp add: pushToSafePoint_def clamp_def)
qed

lemma start_not_safe: "\<not> isPointSafe 500 500 700 round_island"
  by (simp add: isPointSafe_def distanceToNearestLand_def round_island_def hypot_zero_left)

lemma direct_path_blocked: "\<not> isDirectPathClear 500 500 800 1950 700 round_island"
proof -
  let ?steps = "max 10 \<lceil>hypot (800 - 500) (1950 - 500) / 100\<rceil>"
  have "(0::int) \<in> set [0..?steps]" by simp
  moreover have "\<not> isPointSafe (500 + (800 - 500) * (of_int 0 / of_int ?steps))
                    (500 + (1950 - 500) * (of_int 0 / of_int ?steps)) 700 round_island"
    using start_not_safe by simp
  ultimately show ?thesis
    unfolding isDirectPathClear_def Let_def list_all_iff by blast
qed

lemma island_blocks_path:
  "doesPathPassNearIsland 500 500 800 1950 \<lparr>ix = 500, iy = 1000, ir = 200\<rparr> 700"
  by (simp add: doesPathPassNearIsland_def Let_def clamp_def hypot_less_iff)

lemma curve_point:
  assumes "2350 \<le> WORLD_w cfg" "2750 \<le> WORLD_h cfg"
  shows "generateCurveAroundIsland cfg round_island 500 500 800 1950 \<lparr>ix = 500, iy = 1000, ir = 200\<rparr> 700
         = (500 + cos bisector * 1050, 1000 + sin bisector * 1050)"
proof -
  have a1: "atan2 (- 500) 0 = - (pi / 2)" by (simp add: atan2_def)
  have a2: "atan2 950 300 = arctan (19 / 6)" by (simp add: atan2_def)
  have lo: "\<not> arctan (19 / 6) - - (pi / 2) > pi" "\<not> arctan (19 / 6) - - (pi / 2) < - pi"
    using arctan_bounded [of "19 / 6"] by simp_all
  have w: "wrap_up (wrap_down (arctan (19 / 6) - - (pi / 2))) = arctan (19 / 6) - - (pi / 2)"
    using lo by (simp add: wrap_up.simps wrap_down.simps)
  have w': "wrap_up (wrap_down (arctan (19 / 6) + pi / 2)) = arctan (19 / 6) + pi / 2"
    using w by simp
  have mid: "(arctan (19 / 6) + pi / 2) / 2 - pi / 2 = bisector"
    "(arctan (19 / 6) - pi / 2) / 2 = bisector"
    by (simp_all add: bisector_def)
  have d: "hypot (cos bisector * 1050) (sin bisector * 1050) = 1050"
    by (rule hypot_polar) simp
  have t: "push_total (500 + cos bisector * 1050) (1000 + sin bisector * 1050) 700 round_island = (0, 0, False)"
    by (simp add: round_island_def push_total_single Let_def d)
  have l: "safe_loop 700 round_island 15 (500 + cos bisector * 1050, 1000 + sin bisector * 1050)
           = (500 + cos bisector * 1050, 1000 + sin bisector * 1050)"
    by (simp add: eval_nat_numeral t)
  have p: "pushToSafePoint cfg round_island (500 + cos bisector * 1050) (1000 + sin bisector * 1050) 700
           = (500 + cos bisector * 1050, 1000 + sin bisector * 1050)"
  proof -
    have c1: "cos bisector \<le> 1" by simp
    have s1: "- (4 / 21) \<le> sin bisector" "sin bisector \<le> 4 / 21"
      using bisector_sin by (simp_all add: abs_le_iff)
    have bx: "700 + 100 \<le> 500 + cos bisector * 1050"
             "500 + cos bisector * 1050 \<le> WORLD_w cfg - 700 - 100"
      using bisector_cos(1) c1 assms(1) by linarith+
    have by': "700 + 100 \<le> 1000 + sin bisector * 1050"
             "1000 + sin bisector * 1050 \<le> WORLD_h cfg - 700 - 100"
      using s1 assms(2) by linarith+
    show ?thesis
      unfolding pushToSafePoint_def Let_def l
      by (simp only: fst_conv snd_conv clamp_inside [OF bx] clamp_inside [OF by'])
  qed
  show ?thesis
    unfolding generateCurveAroundIsland_def Let_def
    by (simp add: a1 a2 w' mid p)
qed

lemma smooth_path:
  assumes "2350 \<le> WORLD_w cfg" "2750 \<le> WORLD_h cfg"
  shows "generateSmoothPath cfg round_island 500 500 800 1950 700
         = [(500 + cos bisector * 1050, 1000 + sin bisector * 1050), (800, 1950)]"
proof -
  have w: "1600 \<le> WORLD_w cfg" using assms(1) by simp
  have f: "filter (\<lambda>c. doesPathPassNearIsland 500 500 800 1950 c 700) round_island = round_island"
    using island_blocks_path by (simp add: round_island_def)
  have c: "curve_waypoints cfg round_island 700 800 1950 (500, 500) round_island
           = [(500 + cos bisector * 1050, 1000 + sin bisector * 1050)]"
    using curve_point [OF assms] by (simp add: round_island_def Let_def)
  have s: "sort_key (\<lambda>c. hypot (ix c - 500) (iy c - 500)) round_island = round_island"
    by (simp add: round_island_def)
  have ne: "round_island \<noteq> []" by (simp add: round_island_def)
  show ?thesis
    unfolding generateSmoothPath_def Let_def destination_stays [OF w assms(2)]
    by (simp add: direct_path_blocked f s c ne)
qed

lemma curve_point_safe: "isPointSafe (500 + cos bisector * 1050) (1000 + sin bisector * 1050) 560 round_island"
proof -
  have d: "hypot (cos bisector * 1050) (sin bisector * 1050) = 1050"
    by (rule hypot_polar) simp
  show ?thesis
    by (simp add: isPointSafe_def distanceToNearestLand_def round_island_def d)
qed

lemma destination_safe: "isPointSafe 800 1950 560 round_island"
  using far_enough(2) by (simp add: isPointSafe_def distanceToNearestLand_def round_island_def)

lemma commander_route:
  assumes "shipx s = 500" "shipy s = 500" "2350 \<le> WORLD_w cfg" "2750 \<le> WORLD_h cfg"
  shows "planCommanderRoute cfg round_island s 500 1500
         = [(500 + cos bisector * 1050, 1000 + sin bisector * 1050), (800, 1950)]"
  unfolding planCommanderRoute_def Let_def COMMANDER_LAND_MARGIN_def ESCORT_FORMATION_RADIUS_def assms(1,2)
  using safe_destination [OF assms(4)] smooth_path [OF assms(3,4)] curve_point_safe destination_safe
  by simp

text \<open>
  Claim C8. In a world at least 2350 wide and 2750 high whose only island is the circle
  of radius 200 at (500, 1000), \<open>planCommanderRoute\<close> for a ship at (500, 500) ordered to
  (500, 1500) returns a route of at least 2 waypoints, each farther than 200 plus the
  planner's margin \<open>COMMANDER_LAND_MARGIN\<close> from (500, 1000).
\<close>

theorem commander_route_scenario:
  assumes "shipx s = 500" "shipy s = 500" "2350 \<le> WORLD_w cfg" "2750 \<le> WORLD_h cfg"
  shows "route_keeps_clear (planCommanderRoute cfg round_island s 500 1500)"
proof -
  have d: "hypot (cos bisector * 1050) (sin bisector * 1050) = 1050"
    by (rule hypot_polar) simp
  show ?thesis
    unfolding commander_route [OF assms] route_keeps_clear_def
    using d far_enough(3)
    by (simp add: COMMANDER_LAND_MARGIN_def ESCORT_FORMATION_RADIUS_def)
qed

theorem commander_route_scenario_witness:
  "shipx flagship = 500 \<and> shipy flagship = 500 \<and> 2350 \<le> WORLD_w old_config \<and>
   2750 \<le> WORLD_h old_config \<and>
   route_keeps_clear (planCommanderRoute old_config round_island flagship 500 1500)"
proof -
  have a: "shipx flagship = 500" "shipy flagship = 500" "2350 \<le> WORLD_w old_config"
    "2750 \<le> WORLD_h old_config"
    by (simp_all add: flagship_def mkShip_def old_config_def)
  from commander_route_scenario [OF a] a show ?thesis by simp
qed

end
